theory Spec2Isabelle
  imports Main "HOL-Library.AList" "HOL-Library.Multiset"
begin

section \<open>Go values used by authdelegate\<close>

text \<open>
  Go strings are byte sequences, modelled as \<^typ>\<open>string\<close>. A run-time panic is a value
  of type \<open>panic\<close>; a function that can panic returns \<open>panic + 'a\<close>, with \<open>Inl\<close> the
  panic. The only panic the repository's code can raise is the dereference of a nil
  pointer or nil interface.
\<close>

datatype panic = NilDereference

text \<open>\<^verbatim>\<open>strings.Join(a, sep)\<close>.\<close>

fun Join :: "string list \<Rightarrow> string \<Rightarrow> string" where
  "Join [] sep = []"
| "Join [a] sep = a"
| "Join (a # b # rest) sep = a @ sep @ Join (b # rest) sep"

text \<open>\<^verbatim>\<open>url.URL\<close>: the fields of a parsed URL that the program reads or writes.\<close>

record url =
  Scheme :: string
  Opaque :: string
  Host :: string
  Path :: string
  RawQuery :: string
  Fragment :: string

text \<open>
  \<^verbatim>\<open>http.Header\<close> is \<^verbatim>\<open>map[string][]string\<close>, keyed by canonical header names.
  \<^verbatim>\<open>Header.Get\<close> and \<^verbatim>\<open>Header.Set\<close> canonicalise the key they are given with
  \<^verbatim>\<open>textproto.CanonicalMIMEHeaderKey\<close>, which is a parameter \<open>canon\<close> of the model.
  \<^verbatim>\<open>Get\<close> returns the first value stored under the key, and the empty string when
  there is none.
\<close>

type_synonym header = "string \<rightharpoonup> string list"

definition Header_Get :: "(string \<Rightarrow> string) \<Rightarrow> header \<Rightarrow> string \<Rightarrow> string" where
  "Header_Get canon h key =
     (case h (canon key) of None \<Rightarrow> [] | Some [] \<Rightarrow> [] | Some (v # _) \<Rightarrow> v)"

definition Header_Set :: "(string \<Rightarrow> string) \<Rightarrow> header \<Rightarrow> string \<Rightarrow> string \<Rightarrow> header" where
  "Header_Set canon h key v = h(canon key \<mapsto> [v])"

text \<open>
  \<^verbatim>\<open>http.Request\<close>. \<open>reqURL\<close> is the field \<^verbatim>\<open>URL\<close> (renamed: the upstream
  descriptor below has a field of that name too); \<open>RequestURI\<close> is the request target
  of the request line as the client sent it, which for a request in origin form is the
  path followed by \<^verbatim>\<open>?\<close> and the query string.
\<close>

record request =
  Method :: string
  reqURL :: url
  Header :: header
  Body :: string
  RequestURI :: string

record cookie =
  Name :: string
  Value :: string

datatype cookie_error = ErrNoCookie

text \<open>
  \<^verbatim>\<open>Request.Cookie(name)\<close> returns the first cookie that \<^verbatim>\<open>readCookies\<close> parses out
  of the request's headers under that name, and \<^verbatim>\<open>ErrNoCookie\<close> when there is none.
  The parser \<^verbatim>\<open>readCookies\<close> is a parameter \<open>rc\<close>.
\<close>

definition Cookie :: "(header \<Rightarrow> string \<Rightarrow> cookie list) \<Rightarrow> request \<Rightarrow> string \<Rightarrow> cookie_error + cookie" where
  "Cookie rc req name = (case rc (Header req) name of [] \<Rightarrow> Inl ErrNoCookie | c # _ \<Rightarrow> Inr c)"

text \<open>
  What \<^verbatim>\<open>http.Error(rw, error, code)\<close> leaves in the response writer: the content
  type, the status code, and the message followed by a newline
  (\<^verbatim>\<open>fmt.Fprintln\<close>).
\<close>

record response =
  StatusCode :: int
  ContentType :: string
  ResponseBody :: string

definition StatusUnauthorized :: int where
  "StatusUnauthorized = 401"

definition http_Error :: "string \<Rightarrow> int \<Rightarrow> response" where
  "http_Error err code =
     \<lparr>StatusCode = code, ContentType = ''text/plain; charset=utf-8'',
      ResponseBody = err @ [CHR 0x0A]\<rparr>"

section \<open>options.go: the configuration and its validation\<close>

record AuthDelegateUpstream =
  URL :: string
  HeaderName :: string
  CookieName :: string
  parsedURL :: "url option"

text \<open>\<open>Port\<close> is a Go \<^verbatim>\<open>int\<close>; it is only compared with zero.\<close>

record AuthDelegateOptions =
  Port :: int
  SslCert :: string
  SslKey :: string
  Upstreams :: "AuthDelegateUpstream list"

definition validatePort :: "AuthDelegateOptions \<Rightarrow> string list \<Rightarrow> string list" where
  "validatePort opts msgs =
     (if Port opts \<le> 0 then msgs @ [''port must be specified and greater than zero'']
      else msgs)"

text \<open>
  The outcome of \<^verbatim>\<open>os.Stat(path)\<close>: file information, of which the program reads
  only \<^verbatim>\<open>info.Mode().IsRegular()\<close>, or an error. \<^verbatim>\<open>os.IsNotExist\<close> and
  \<^verbatim>\<open>os.IsPermission\<close> classify the error; with any other error \<^verbatim>\<open>info\<close> is nil and
  the call \<^verbatim>\<open>info.Mode()\<close> panics.
\<close>

datatype stat_result = FileInfo bool | StatNotExist | StatPermission | StatOtherError

definition checkExistenceAndPermission ::
    "(string \<Rightarrow> stat_result) \<Rightarrow> string \<Rightarrow> string \<Rightarrow> string list \<Rightarrow> panic + string list" where
  "checkExistenceAndPermission stat path optionName msgs =
     (case stat path of
        StatNotExist \<Rightarrow> Inr (msgs @ [optionName @ '' does not exist: '' @ path])
      | StatPermission \<Rightarrow> Inr (msgs @ [optionName @ '' permission is denied: '' @ path])
      | StatOtherError \<Rightarrow> Inl NilDereference
      | FileInfo regular \<Rightarrow>
          (if \<not> regular then Inr (msgs @ [optionName @ '' is not a regular file: '' @ path])
           else Inr msgs))"

definition validateSsl ::
    "(string \<Rightarrow> stat_result) \<Rightarrow> AuthDelegateOptions \<Rightarrow> string list \<Rightarrow> panic + string list" where
  "validateSsl stat opts msgs =
     (let certSpecified = (SslCert opts \<noteq> []);
          keySpecified = (SslKey opts \<noteq> [])
      in if \<not> (certSpecified \<or> keySpecified) then Inr msgs
         else
           (let msgs1 =
                  (if \<not> (certSpecified \<and> keySpecified)
                   then msgs @ [''ssl-cert and ssl-key must both be specified, or neither must be'']
                   else msgs)
            in case (if certSpecified
                     then checkExistenceAndPermission stat (SslCert opts) ''ssl-cert'' msgs1
                     else Inr msgs1) of
                 Inl p \<Rightarrow> Inl p
               | Inr msgs2 \<Rightarrow>
                   (if keySpecified
                    then checkExistenceAndPermission stat (SslKey opts) ''ssl-key'' msgs2
                    else Inr msgs2)))"

text \<open>
  \<^verbatim>\<open>url.Parse\<close> is a parameter \<open>parse\<close>: it returns the text of the error
  (\<open>Inl\<close>) together with a nil URL, or the parsed URL (\<open>Inr\<close>).

  \<^verbatim>\<open>validateUpstream\<close>, first statement: the upstream's \<^verbatim>\<open>parsedURL\<close> is assigned
  whatever \<^verbatim>\<open>url.Parse\<close> returned, and a failure is recorded in \<open>msgs\<close>.
\<close>

definition validateUpstream_parse ::
    "(string \<Rightarrow> string + url) \<Rightarrow> AuthDelegateUpstream \<Rightarrow> string list
      \<Rightarrow> AuthDelegateUpstream \<times> string list" where
  "validateUpstream_parse parse upstream msgs =
     (case parse (URL upstream) of
        Inl err \<Rightarrow> (upstream\<lparr>parsedURL := None\<rparr>, msgs @ [''upstream URL failed to parse'' @ err])
      | Inr u \<Rightarrow> (upstream\<lparr>parsedURL := Some u\<rparr>, msgs))"

text \<open>
  The rest of \<^verbatim>\<open>validateUpstream\<close>: \<^verbatim>\<open>upstream.parsedURL.Scheme\<close> dereferences the
  pointer just assigned. The upstream is a pointer in the source, so the model returns
  the updated upstream with the messages.
\<close>

definition validateUpstream ::
    "(string \<Rightarrow> string + url) \<Rightarrow> AuthDelegateUpstream \<Rightarrow> string list
      \<Rightarrow> panic + (AuthDelegateUpstream \<times> string list)" where
  "validateUpstream parse upstream0 msgs0 =
     (let (upstream, msgs) = validateUpstream_parse parse upstream0 msgs0
      in case parsedURL upstream of
           None \<Rightarrow> Inl NilDereference
         | Some u \<Rightarrow>
             (let scheme = Scheme u;
                  msgs1 =
                    (if scheme = [] then msgs @ [''upstream scheme not specified: '' @ URL upstream]
                     else if \<not> (scheme = ''http'' \<or> scheme = ''https'')
                     then msgs @ [''invalid upstream scheme: '' @ URL upstream]
                     else msgs);
                  msgs2 =
                    (if HeaderName upstream \<noteq> [] \<and> CookieName upstream \<noteq> []
                     then msgs1 @ [''both header_name and cookie_name defined: '' @ URL upstream]
                     else msgs1)
              in Inr (upstream, msgs2)))"

text \<open>
  A \<^verbatim>\<open>map[string]int\<close> is an association list with distinct keys. \<^verbatim>\<open>m[k]++\<close> reads
  zero for a missing key. Go does not specify the order in which \<^verbatim>\<open>range\<close> visits a
  map, so the order is a parameter \<open>iter\<close> of the model, a function that rearranges
  the entries.
\<close>

type_synonym counts = "(string \<times> int) list"

definition increment :: "string \<Rightarrow> counts \<Rightarrow> counts" where
  "increment k m = AList.update k ((case map_of m k of None \<Rightarrow> 0 | Some n \<Rightarrow> n) + 1) m"

definition validateNameCounts ::
    "(counts \<Rightarrow> counts) \<Rightarrow> string \<Rightarrow> counts \<Rightarrow> string list \<Rightarrow> string list" where
  "validateNameCounts iter category counts0 msgs =
     (let counts = AList.delete [] counts0;
          repeatedNames =
            map fst (filter (\<lambda>(name, numAppearances). numAppearances > 1) (iter counts))
      in if length repeatedNames \<noteq> 0
         then msgs @ [''repeated '' @ category @ '': '' @ Join repeatedNames '', '']
         else msgs)"

definition validateDefaultUpstreams ::
    "string list \<Rightarrow> AuthDelegateUpstream \<Rightarrow> string list \<Rightarrow> string list" where
  "validateDefaultUpstreams defaultUpstreams lastUpstream msgs =
     (let numDefaults = length defaultUpstreams
      in if numDefaults = 0 then msgs
         else
           (let lastDefault = defaultUpstreams ! (numDefaults - 1)
            in if numDefaults > 1
               then msgs @ [''multiple upstreams without header_name or cookie_name'']
               else if lastDefault \<noteq> URL lastUpstream
               then msgs @ [''upstream without header_name or cookie_name not last in upstream list: ''
                             @ lastDefault]
               else msgs))"

text \<open>
  The local variables of \<^verbatim>\<open>validateUpstreams\<close> that its loop updates (\<open>v_msgs\<close>
  is \<^verbatim>\<open>msgs\<close>, and so on); \<open>v_visited\<close> holds the upstreams the loop has been
  through, with \<^verbatim>\<open>parsedURL\<close> assigned.
\<close>

record loop_state =
  v_msgs :: "string list"
  v_defaultUpstreams :: "string list"
  v_cookieNames :: counts
  v_headerNames :: counts
  v_visited :: "AuthDelegateUpstream list"

fun validateUpstreams_loop ::
    "(string \<Rightarrow> string + url) \<Rightarrow> AuthDelegateUpstream list \<Rightarrow> loop_state \<Rightarrow> panic + loop_state" where
  "validateUpstreams_loop parse [] st = Inr st"
| "validateUpstreams_loop parse (current0 # rest) st =
     (case validateUpstream parse current0 (v_msgs st) of
        Inl p \<Rightarrow> Inl p
      | Inr (current, msgs') \<Rightarrow>
          validateUpstreams_loop parse rest
            \<lparr>v_msgs = msgs',
             v_defaultUpstreams =
               (if HeaderName current = [] \<and> CookieName current = []
                then v_defaultUpstreams st @ [URL current] else v_defaultUpstreams st),
             v_cookieNames = increment (CookieName current) (v_cookieNames st),
             v_headerNames = increment (HeaderName current) (v_headerNames st),
             v_visited = v_visited st @ [current]\<rparr>)"

definition validateUpstreams ::
    "(string \<Rightarrow> string + url) \<Rightarrow> (counts \<Rightarrow> counts) \<Rightarrow> AuthDelegateOptions \<Rightarrow> string list
      \<Rightarrow> panic + (AuthDelegateOptions \<times> string list)" where
  "validateUpstreams parse iter opts msgs0 =
     (if length (Upstreams opts) = 0 then Inr (opts, msgs0 @ [''no upstreams defined''])
      else
        (let numUpstreams = length (Upstreams opts)
         in case validateUpstreams_loop parse (Upstreams opts)
                   \<lparr>v_msgs = msgs0, v_defaultUpstreams = [], v_cookieNames = [], v_headerNames = [],
                    v_visited = []\<rparr> of
              Inl p \<Rightarrow> Inl p
            | Inr st \<Rightarrow>
                (let msgs1 = validateNameCounts iter ''cookie names'' (v_cookieNames st) (v_msgs st);
                     msgs2 = validateNameCounts iter ''header names'' (v_headerNames st) msgs1;
                     msgs3 = validateDefaultUpstreams (v_defaultUpstreams st)
                               (v_visited st ! (numUpstreams - 1)) msgs2
                 in Inr (opts\<lparr>Upstreams := v_visited st\<rparr>, msgs3))))"

text \<open>
  \<^verbatim>\<open>Validate\<close> returns the error (\<open>None\<close> is nil) and, the receiver being a pointer,
  leaves the options with every \<^verbatim>\<open>parsedURL\<close> assigned.
\<close>

definition optionErrors :: "string list \<Rightarrow> string" where
  "optionErrors msgs = ''Invalid options:'' @ [CHR 0x0A] @ ''  '' @ Join msgs ([CHR 0x0A] @ ''  '')"

definition Validate ::
    "(string \<Rightarrow> stat_result) \<Rightarrow> (string \<Rightarrow> string + url) \<Rightarrow> (counts \<Rightarrow> counts)
      \<Rightarrow> AuthDelegateOptions \<Rightarrow> panic + (AuthDelegateOptions \<times> string option)" where
  "Validate stat parse iter opts =
     (let msgs0 = validatePort opts []
      in case validateSsl stat opts msgs0 of
           Inl p \<Rightarrow> Inl p
         | Inr msgs1 \<Rightarrow>
             (case validateUpstreams parse iter opts msgs1 of
                Inl p \<Rightarrow> Inl p
              | Inr (opts', msgs2) \<Rightarrow>
                  Inr (opts', if length msgs2 \<noteq> 0 then Some (optionErrors msgs2) else None)))"

text \<open>
  \<^verbatim>\<open>NewAuthDelegateOptionsFromJSON\<close>: \<^verbatim>\<open>json.Unmarshal\<close> is a parameter \<open>unmarshal\<close>
  (the text of its error, or the decoded options). The result is the pair of the
  returned pointer (\<open>None\<close> is nil) and the returned error.
\<close>

definition NewAuthDelegateOptionsFromJSON ::
    "(string \<Rightarrow> string + AuthDelegateOptions) \<Rightarrow> (string \<Rightarrow> stat_result)
      \<Rightarrow> (string \<Rightarrow> string + url) \<Rightarrow> (counts \<Rightarrow> counts) \<Rightarrow> string
      \<Rightarrow> panic + (AuthDelegateOptions option \<times> string option)" where
  "NewAuthDelegateOptionsFromJSON unmarshal stat parse iter config =
     (case unmarshal config of
        Inl err \<Rightarrow> Inr (None, Some (''JSON parsing failed: '' @ err))
      | Inr opts \<Rightarrow>
          (case Validate stat parse iter opts of
             Inl p \<Rightarrow> Inl p
           | Inr (opts', Some err) \<Rightarrow> Inr (None, Some err)
           | Inr (opts', None) \<Rightarrow> Inr (Some opts', None)))"

section \<open>delegate.go: the dispatcher\<close>

text \<open>
  \<^verbatim>\<open>httputil.NewSingleHostReverseProxy(target)\<close>, as in the Go releases of the
  repository's time: it reads \<^verbatim>\<open>target.RawQuery\<close> at once (a nil target panics) and
  returns a proxy whose director rewrites the scheme, host, path and query of the
  outgoing request's URL, and nothing else of the request.
\<close>

definition singleJoiningSlash :: "string \<Rightarrow> string \<Rightarrow> string" where
  "singleJoiningSlash a b =
     (let aslash = (a \<noteq> [] \<and> last a = CHR ''/'');
          bslash = (b \<noteq> [] \<and> hd b = CHR ''/'')
      in if aslash \<and> bslash then a @ tl b
         else if \<not> aslash \<and> \<not> bslash then a @ ''/'' @ b
         else a @ b)"

definition director :: "url \<Rightarrow> request \<Rightarrow> request" where
  "director target req =
     (let targetQuery = RawQuery target;
          u = reqURL req;
          u1 = u\<lparr>Scheme := Scheme target, Host := Host target,
                 Path := singleJoiningSlash (Path target) (Path u)\<rparr>;
          u2 = (if targetQuery = [] \<or> RawQuery u1 = []
                then u1\<lparr>RawQuery := targetQuery @ RawQuery u1\<rparr>
                else u1\<lparr>RawQuery := targetQuery @ ''&'' @ RawQuery u1\<rparr>)
      in req\<lparr>reqURL := u2\<rparr>)"

text \<open>
  The director that \<^verbatim>\<open>newAuthDelegateReverseProxy\<close> installs (the call of
  \<^verbatim>\<open>log.Printf\<close> is left out: it changes nothing of the request).
\<close>

definition Director :: "(string \<Rightarrow> string) \<Rightarrow> url \<Rightarrow> request \<Rightarrow> request" where
  "Director canon url req0 =
     (let req = director url req0;
          origURI = Header_Get canon (Header req) ''X-Original-URI'';
          req1 = (if origURI = []
                  then req\<lparr>Header := Header_Set canon (Header req) ''X-Original-URI'' (RequestURI req)\<rparr>
                  else req)
      in req1\<lparr>reqURL := url\<rparr>)"

text \<open>A reverse proxy of this program is determined by the URL it was made for.\<close>

record ReverseProxy =
  target :: url

definition newAuthDelegateReverseProxy :: "url option \<Rightarrow> panic + ReverseProxy" where
  "newAuthDelegateReverseProxy url =
     (case url of None \<Rightarrow> Inl NilDereference | Some u \<Rightarrow> Inr \<lparr>target = u\<rparr>)"

text \<open>
  What serving a request comes to: \<open>Proxied r\<close>, where \<open>r\<close> is the request as the
  director of the proxy leaves it, or a response written by the handler itself. After
  the director, \<^verbatim>\<open>httputil.ReverseProxy.ServeHTTP\<close> goes on to edit the headers of
  \<open>r\<close> before it sends the request (it removes the hop-by-hop headers and the headers
  that \<^verbatim>\<open>Connection\<close> lists, and adds \<^verbatim>\<open>X-Forwarded-For\<close>); that part of the library
  is not modelled, so the headers of \<open>r\<close> are those the director leaves, not those
  sent. The URL, the method, the body and \<^verbatim>\<open>RequestURI\<close> of \<open>r\<close> are those of the
  request sent.
\<close>

datatype outcome = Proxied request | Responded response

definition ReverseProxy_ServeHTTP :: "(string \<Rightarrow> string) \<Rightarrow> ReverseProxy \<Rightarrow> request \<Rightarrow> outcome" where
  "ReverseProxy_ServeHTTP canon proxy req = Proxied (Director canon (target proxy) req)"

record authDelegate =
  headerName :: string
  cookieName :: string
  handler :: ReverseProxy

record authDelegateHandler =
  upstreams :: "authDelegate list"

fun NewAuthDelegate_loop :: "AuthDelegateUpstream list \<Rightarrow> authDelegateHandler \<Rightarrow> panic + authDelegateHandler" where
  "NewAuthDelegate_loop [] h = Inr h"
| "NewAuthDelegate_loop (upstream # rest) h =
     (case newAuthDelegateReverseProxy (parsedURL upstream) of
        Inl p \<Rightarrow> Inl p
      | Inr proxy \<Rightarrow>
          NewAuthDelegate_loop rest
            (h\<lparr>upstreams := upstreams h @
                 [\<lparr>headerName = HeaderName upstream, cookieName = CookieName upstream,
                   handler = proxy\<rparr>]\<rparr>))"

definition NewAuthDelegate :: "AuthDelegateOptions \<Rightarrow> panic + authDelegateHandler" where
  "NewAuthDelegate opts = NewAuthDelegate_loop (Upstreams opts) \<lparr>upstreams = []\<rparr>"

definition accepts ::
    "(string \<Rightarrow> string) \<Rightarrow> (header \<Rightarrow> string \<Rightarrow> cookie list) \<Rightarrow> authDelegate \<Rightarrow> request \<Rightarrow> bool" where
  "accepts canon rc delegate req =
     (if headerName delegate \<noteq> [] then Header_Get canon (Header req) (headerName delegate) \<noteq> []
      else if cookieName delegate \<noteq> []
      then (case Cookie rc req (cookieName delegate) of Inl err \<Rightarrow> err \<noteq> ErrNoCookie | Inr c \<Rightarrow> True)
      else True)"

fun ServeHTTP_loop ::
    "(string \<Rightarrow> string) \<Rightarrow> (header \<Rightarrow> string \<Rightarrow> cookie list) \<Rightarrow> authDelegate list \<Rightarrow> request \<Rightarrow> outcome" where
  "ServeHTTP_loop canon rc [] req = Responded (http_Error ''unauthorized request'' StatusUnauthorized)"
| "ServeHTTP_loop canon rc (upstream # rest) req =
     (if accepts canon rc upstream req then ReverseProxy_ServeHTTP canon (handler upstream) req
      else ServeHTTP_loop canon rc rest req)"

definition ServeHTTP ::
    "(string \<Rightarrow> string) \<Rightarrow> (header \<Rightarrow> string \<Rightarrow> cookie list) \<Rightarrow> authDelegateHandler \<Rightarrow> request \<Rightarrow> outcome" where
  "ServeHTTP canon rc h req = ServeHTTP_loop canon rc (upstreams h) req"

section \<open>Notions used in the statements\<close>

text \<open>An upstream whose URL \<^verbatim>\<open>url.Parse\<close> accepts.\<close>

definition parses :: "(string \<Rightarrow> string + url) \<Rightarrow> AuthDelegateUpstream \<Rightarrow> bool" where
  "parses parse u = (case parse (URL u) of Inl err \<Rightarrow> False | Inr p \<Rightarrow> True)"

text \<open>The upstream as \<^verbatim>\<open>validateUpstream\<close> leaves it.\<close>

definition withParsedURL ::
    "(string \<Rightarrow> string + url) \<Rightarrow> AuthDelegateUpstream \<Rightarrow> AuthDelegateUpstream" where
  "withParsedURL parse u =
     u\<lparr>parsedURL := (case parse (URL u) of Inl err \<Rightarrow> None | Inr p \<Rightarrow> Some p)\<rparr>"

text \<open>The messages that \<^verbatim>\<open>validateUpstream\<close> adds for an upstream whose URL parses.\<close>

definition upstreamMessages ::
    "(string \<Rightarrow> string + url) \<Rightarrow> AuthDelegateUpstream \<Rightarrow> string list" where
  "upstreamMessages parse u =
     (case parse (URL u) of
        Inl err \<Rightarrow> []
      | Inr p \<Rightarrow>
          (if Scheme p = [] then [''upstream scheme not specified: '' @ URL u]
           else if \<not> (Scheme p = ''http'' \<or> Scheme p = ''https'')
           then [''invalid upstream scheme: '' @ URL u] else []) @
          (if HeaderName u \<noteq> [] \<and> CookieName u \<noteq> []
           then [''both header_name and cookie_name defined: '' @ URL u] else []))"

text \<open>A default upstream names neither a header nor a cookie.\<close>

definition isDefault :: "AuthDelegateUpstream \<Rightarrow> bool" where
  "isDefault u = (HeaderName u = [] \<and> CookieName u = [])"

definition countOf :: "counts \<Rightarrow> string \<Rightarrow> int" where
  "countOf m k = (case map_of m k of None \<Rightarrow> 0 | Some n \<Rightarrow> n)"

text \<open>The non-empty names that occur more than once in a list of names.\<close>

definition repeated :: "string list \<Rightarrow> string set" where
  "repeated ks = {k. k \<noteq> [] \<and> 1 < count_list ks k}"

text \<open>
  The list \<^verbatim>\<open>repeatedNames\<close> that \<^verbatim>\<open>validateNameCounts\<close> builds from the map that the
  loop of \<^verbatim>\<open>validateUpstreams\<close> has filled with the names \<open>ks\<close>.
\<close>

definition repeatedNames :: "(counts \<Rightarrow> counts) \<Rightarrow> string list \<Rightarrow> string list" where
  "repeatedNames iter ks =
     map fst (filter (\<lambda>(name, numAppearances). numAppearances > 1)
       (iter (AList.delete [] (fold increment ks []))))"

text \<open>All the messages of \<^verbatim>\<open>validateUpstreams\<close> for a non-empty list of upstreams.\<close>

definition upstreamStage ::
    "(string \<Rightarrow> string + url) \<Rightarrow> (counts \<Rightarrow> counts) \<Rightarrow> AuthDelegateUpstream list \<Rightarrow> string list" where
  "upstreamStage parse iter ups =
     concat (map (upstreamMessages parse) ups) @
     validateNameCounts iter ''cookie names'' (fold increment (map CookieName ups) []) [] @
     validateNameCounts iter ''header names'' (fold increment (map HeaderName ups) []) [] @
     validateDefaultUpstreams (map URL (filter isDefault ups)) (last ups) []"

text \<open>The rule that \<^verbatim>\<open>NewAuthDelegate\<close> builds from a validated upstream.\<close>

definition delegateOf :: "AuthDelegateUpstream \<Rightarrow> authDelegate" where
  "delegateOf u =
     \<lparr>headerName = HeaderName u, cookieName = CookieName u,
      handler = \<lparr>target = the (parsedURL u)\<rparr>\<rparr>"

section \<open>Concrete inputs, after the repository's tests\<close>

text \<open>
  The library functions that the model takes as parameters, on the inputs of the tests:
  the canonical form of the header names used, the cookie parser on the one
  \<^verbatim>\<open>Cookie\<close> header that the tests send, \<^verbatim>\<open>url.Parse\<close> on the URLs of
  \<^verbatim>\<open>options_test.go\<close>, and a file system in which no file exists.
\<close>

definition canon0 :: "string \<Rightarrow> string" where
  "canon0 k = (if k = ''X-Original-URI'' then ''X-Original-Uri'' else k)"

definition rc0 :: "header \<Rightarrow> string \<Rightarrow> cookie list" where
  "rc0 h name =
     (if h ''Cookie'' = Some [''_cookie=''] \<and> (name = ''_cookie'' \<or> name = [])
      then [\<lparr>Name = ''_cookie'', Value = []\<rparr>] else [])"

definition fooURL :: url where
  "fooURL = \<lparr>Scheme = ''https'', Opaque = [], Host = ''foo.com'', Path = ''/auth'',
             RawQuery = [], Fragment = []\<rparr>"

definition localhostURL :: url where
  "localhostURL = \<lparr>Scheme = ''http'', Opaque = [], Host = ''127.0.0.1:8080'', Path = ''/auth'',
                   RawQuery = [], Fragment = []\<rparr>"

definition parse0 :: "string \<Rightarrow> string + url" where
  "parse0 s =
     (if s = ''https://foo.com/auth'' then Inr fooURL
      else if s = ''http://127.0.0.1:8080/auth'' then Inr localhostURL
      else if s = ''foo.com/auth''
      then Inr \<lparr>Scheme = [], Opaque = [], Host = [], Path = ''foo.com/auth'', RawQuery = [],
                Fragment = []\<rparr>
      else Inl (''parse '' @ s @ '': missing protocol scheme''))"

definition stat0 :: "string \<Rightarrow> stat_result" where
  "stat0 path = StatNotExist"

definition testUpstream :: "string \<Rightarrow> string \<Rightarrow> string \<Rightarrow> AuthDelegateUpstream" where
  "testUpstream u c h = \<lparr>URL = u, HeaderName = h, CookieName = c, parsedURL = None\<rparr>"

definition testOptions :: "int \<Rightarrow> AuthDelegateUpstream list \<Rightarrow> AuthDelegateOptions" where
  "testOptions p ups = \<lparr>Port = p, SslCert = [], SslKey = [], Upstreams = ups\<rparr>"

text \<open>A request as the server hands it to the handler: \<^verbatim>\<open>GET\<close> of a path and a query.\<close>

definition testRequest :: "string \<Rightarrow> string \<Rightarrow> header \<Rightarrow> request" where
  "testRequest p q h =
     \<lparr>Method = ''GET'',
      reqURL = \<lparr>Scheme = [], Opaque = [], Host = [], Path = p, RawQuery = q, Fragment = []\<rparr>,
      Header = h, Body = [],
      RequestURI = (if q = [] then p else p @ ''?'' @ q)\<rparr>"

text \<open>A header rule listed before a cookie rule, and the two rules with a default after them.\<close>

definition headerThenCookie :: AuthDelegateOptions where
  "headerThenCookie =
     testOptions 443
       [testUpstream ''http://127.0.0.1:8080/auth'' [] ''X-Signature'',
        testUpstream ''https://foo.com/auth'' ''_cookie'' []]"

definition headerThenCookie' :: AuthDelegateOptions where
  "headerThenCookie' =
     testOptions 443
       [(testUpstream ''http://127.0.0.1:8080/auth'' [] ''X-Signature'')\<lparr>parsedURL := Some localhostURL\<rparr>,
        (testUpstream ''https://foo.com/auth'' ''_cookie'' [])\<lparr>parsedURL := Some fooURL\<rparr>]"

definition signatureRule :: authDelegate where
  "signatureRule = \<lparr>headerName = ''X-Signature'', cookieName = [], handler = \<lparr>target = localhostURL\<rparr>\<rparr>"

definition cookieRule :: authDelegate where
  "cookieRule = \<lparr>headerName = [], cookieName = ''_cookie'', handler = \<lparr>target = fooURL\<rparr>\<rparr>"

text \<open>
  The requests of \<^verbatim>\<open>delegate_test.go\<close>: with no header and no cookie, with the header
  \<^verbatim>\<open>X-Signature: foobar\<close>, with the header and the cookie \<^verbatim>\<open>_cookie\<close>; and a request
  whose \<^verbatim>\<open>X-Signature\<close> header is present with the empty string as its value.
\<close>

definition plainRequest :: request where
  "plainRequest = testRequest ''/'' [] Map.empty"

definition signedRequest :: request where
  "signedRequest = testRequest ''/'' [] [''X-Signature'' \<mapsto> [''foobar'']]"

definition signedCookieRequest :: request where
  "signedCookieRequest =
     testRequest ''/'' [] [''X-Signature'' \<mapsto> [''foobar''], ''Cookie'' \<mapsto> [''_cookie='']]"

definition emptySignatureRequest :: request where
  "emptySignatureRequest = testRequest ''/'' [] [''X-Signature'' \<mapsto> [[]]]"

text \<open>
  Requests for \<^verbatim>\<open>/bar?quux\<close>: with no \<^verbatim>\<open>X-Original-URI\<close> header, with the header set
  to \<^verbatim>\<open>/baz?quux\<close>, and with the header present with the empty string as its value.
\<close>

definition barQuuxRequest :: request where
  "barQuuxRequest = testRequest ''/bar'' ''quux'' Map.empty"

definition tracedRequest :: request where
  "tracedRequest = testRequest ''/bar'' ''quux'' [''X-Original-Uri'' \<mapsto> [''/baz?quux'']]"

definition emptyOriginalURIRequest :: request where
  "emptyOriginalURIRequest = testRequest ''/bar'' ''quux'' [''X-Original-Uri'' \<mapsto> [[]]]"

text \<open>
  The request of \<^verbatim>\<open>delegate_test.go\<close> that the tests hand to the handler directly,
  \<^verbatim>\<open>http.NewRequest("GET", "http://foo.com/", nil)\<close>: its path is \<^verbatim>\<open>/\<close>, and its
  \<^verbatim>\<open>RequestURI\<close> is empty, since no server has read a request line.
\<close>

definition directRequest :: request where
  "directRequest =
     \<lparr>Method = ''GET'',
      reqURL = \<lparr>Scheme = ''http'', Opaque = [], Host = ''foo.com'', Path = ''/'', RawQuery = [],
                Fragment = []\<rparr>,
      Header = Map.empty, Body = [], RequestURI = []\<rparr>"

section \<open>The dispatcher: auxiliary facts\<close>

lemma NewAuthDelegate_loop_ok:
  "\<forall>u \<in> set us. parsedURL u \<noteq> None \<Longrightarrow>
   NewAuthDelegate_loop us h = Inr (h\<lparr>upstreams := upstreams h @ map delegateOf us\<rparr>)"
proof (induction us arbitrary: h)
  case Nil
  then show ?case by simp
next
  case (Cons u us)
  then show ?case by (auto simp: newAuthDelegateReverseProxy_def delegateOf_def)
qed

lemma ServeHTTP_loop_first:
  "i < length ds \<Longrightarrow> accepts canon rc (ds ! i) req \<Longrightarrow>
   (\<forall>j<i. \<not> accepts canon rc (ds ! j) req) \<Longrightarrow>
   ServeHTTP_loop canon rc ds req = ReverseProxy_ServeHTTP canon (handler (ds ! i)) req"
proof (induction ds arbitrary: i)
  case Nil
  then show ?case by simp
next
  case (Cons d ds)
  show ?case
  proof (cases i)
    case 0
    with Cons.prems show ?thesis by simp
  next
    case (Suc k)
    with Cons.prems have "\<not> accepts canon rc d req" by auto
    moreover from Suc Cons.prems have "\<forall>j<k. \<not> accepts canon rc (ds ! j) req" by auto
    ultimately show ?thesis using Suc Cons.prems Cons.IH[of k] by simp
  qed
qed

lemma ServeHTTP_loop_none:
  "\<forall>d \<in> set ds. \<not> accepts canon rc d req \<Longrightarrow>
   ServeHTTP_loop canon rc ds req =
     Responded (http_Error ''unauthorized request'' StatusUnauthorized)"
  by (induction ds) auto

lemma ServeHTTP_loop_Proxied:
  "ServeHTTP_loop canon rc ds req = Proxied out \<Longrightarrow>
   \<exists>d \<in> set ds. accepts canon rc d req \<and> out = Director canon (target (handler d)) req"
  by (induction ds) (auto simp: ReverseProxy_ServeHTTP_def split: if_splits)

lemma Director_fields:
  "reqURL (Director canon u req) = u"
  "Method (Director canon u req) = Method req"
  "Body (Director canon u req) = Body req"
  "RequestURI (Director canon u req) = RequestURI req"
  "Header (Director canon u req) =
     (if Header_Get canon (Header req) ''X-Original-URI'' = []
      then Header_Set canon (Header req) ''X-Original-URI'' (RequestURI req)
      else Header req)"
  by (simp_all add: Director_def director_def Let_def)

section \<open>Validation: auxiliary facts\<close>

lemma validateUpstream_fails:
  "\<not> parses parse u \<Longrightarrow> validateUpstream parse u ms = Inl NilDereference"
  by (simp add: validateUpstream_def validateUpstream_parse_def parses_def split: sum.splits)

lemma validateUpstream_returns:
  "parses parse u \<Longrightarrow>
   validateUpstream parse u ms = Inr (withParsedURL parse u, ms @ upstreamMessages parse u)"
  by (simp add: validateUpstream_def validateUpstream_parse_def parses_def withParsedURL_def
      upstreamMessages_def Let_def split: sum.splits)

lemma withParsedURL_fields [simp]:
  "URL (withParsedURL parse u) = URL u"
  "HeaderName (withParsedURL parse u) = HeaderName u"
  "CookieName (withParsedURL parse u) = CookieName u"
  by (simp_all add: withParsedURL_def)

lemma loop_returns:
  "\<forall>u \<in> set us. parses parse u \<Longrightarrow>
   validateUpstreams_loop parse us st =
     Inr \<lparr>v_msgs = v_msgs st @ concat (map (upstreamMessages parse) us),
          v_defaultUpstreams = v_defaultUpstreams st @ map URL (filter isDefault us),
          v_cookieNames = fold increment (map CookieName us) (v_cookieNames st),
          v_headerNames = fold increment (map HeaderName us) (v_headerNames st),
          v_visited = v_visited st @ map (withParsedURL parse) us\<rparr>"
proof (induction us arbitrary: st)
  case Nil
  then show ?case by simp
next
  case (Cons u us)
  then show ?case by (simp add: validateUpstream_returns isDefault_def)
qed

lemma loop_fails:
  "\<exists>u \<in> set us. \<not> parses parse u \<Longrightarrow> validateUpstreams_loop parse us st = Inl NilDereference"
proof (induction us arbitrary: st)
  case Nil
  then show ?case by simp
next
  case (Cons u us)
  show ?case
  proof (cases "parses parse u")
    case True
    with Cons.prems have "\<exists>u \<in> set us. \<not> parses parse u" by auto
    then show ?thesis using True Cons.IH by (simp add: validateUpstream_returns)
  next
    case False
    then show ?thesis by (simp add: validateUpstream_fails)
  qed
qed

lemma distinct_increment: "distinct (map fst m) \<Longrightarrow> distinct (map fst (increment k m))"
  by (simp add: increment_def distinct_update)

lemma map_of_increment:
  "map_of (increment k m) = (map_of m)(k \<mapsto> countOf m k + 1)"
  by (simp add: increment_def update_conv' countOf_def)

lemma distinct_fold_increment:
  "distinct (map fst m) \<Longrightarrow> distinct (map fst (fold increment ks m))"
  by (induction ks arbitrary: m) (simp_all add: distinct_increment)

lemma map_of_fold_increment:
  "map_of (fold increment ks m) k =
     (if k \<in> set ks \<or> map_of m k \<noteq> None then Some (countOf m k + int (count_list ks k)) else None)"
proof (induction ks arbitrary: m)
  case Nil
  then show ?case by (auto simp: countOf_def)
next
  case (Cons a ks)
  show ?case
    by (simp add: Cons.IH map_of_increment) (auto simp: countOf_def map_of_increment)
qed

lemma set_fold_increment:
  assumes "(k, n) \<in> set (fold increment ks [])"
  shows "k \<in> set ks \<and> n = int (count_list ks k)"
proof -
  have d: "distinct (map fst (fold increment ks []))"
    by (rule distinct_fold_increment) simp
  with assms have "map_of (fold increment ks []) k = Some n" by simp
  then show ?thesis
    by (simp add: map_of_fold_increment countOf_def split: if_splits)
qed

lemma in_set_fold_increment:
  assumes "k \<in> set ks"
  shows "(k, int (count_list ks k)) \<in> set (fold increment ks [])"
proof -
  from assms have "map_of (fold increment ks []) k = Some (int (count_list ks k))"
    by (simp add: map_of_fold_increment countOf_def)
  then show ?thesis by (rule map_of_SomeD)
qed

lemma repeatedNames_of_counts:
  assumes iter: "\<And>m. mset (iter m) = mset m"
  shows "distinct (repeatedNames iter ks) \<and> set (repeatedNames iter ks) = repeated ks"
proof -
  let ?c = "AList.delete [] (fold increment ks [])"
  define names where "names = repeatedNames iter ks"
  note names_def = names_def [unfolded repeatedNames_def]
  have d: "distinct (map fst ?c)"
    by (simp add: distinct_delete distinct_fold_increment)
  have "mset (map fst (iter ?c)) = mset (map fst ?c)"
    by (simp add: iter)
  then have "distinct (map fst (iter ?c))"
    using d by (metis mset_eq_imp_distinct_iff)
  then have 1: "distinct names"
    unfolding names_def by (rule distinct_map_filter)
  have s: "set (iter ?c) = set ?c"
    using iter by (metis set_mset_mset)
  have "set names = repeated ks"
  proof (rule set_eqI)
    fix k
    show "k \<in> set names \<longleftrightarrow> k \<in> repeated ks"
    proof
      assume "k \<in> set names"
      then obtain n where "(k, n) \<in> set ?c" "1 < n"
        unfolding names_def using s by auto
      then have "k \<noteq> []" "(k, n) \<in> set (fold increment ks [])"
        by (auto simp: AList.delete_eq)
      with \<open>1 < n\<close> show "k \<in> repeated ks"
        using set_fold_increment[of k n ks] by (simp add: repeated_def)
    next
      assume "k \<in> repeated ks"
      then have k: "k \<noteq> []" "1 < count_list ks k" by (simp_all add: repeated_def)
      then have "k \<in> set ks" by (metis count_list_0_iff not_less_zero)
      then have "(k, int (count_list ks k)) \<in> set ?c"
        using k by (simp add: AList.delete_eq in_set_fold_increment)
      then show "k \<in> set names"
        unfolding names_def using s k by force
    qed
  qed
  with 1 show ?thesis by (simp add: names_def repeatedNames_def)
qed

lemma validateNameCounts_repeatedNames:
  "validateNameCounts iter category (fold increment ks []) ms =
     (if repeatedNames iter ks = [] then ms
      else ms @ [''repeated '' @ category @ '': '' @ Join (repeatedNames iter ks) '', ''])"
  by (simp add: validateNameCounts_def repeatedNames_def Let_def)

lemma validateNameCounts_append:
  "validateNameCounts iter category c ms = ms @ validateNameCounts iter category c []"
  by (simp add: validateNameCounts_def Let_def)

lemma validateDefaultUpstreams_append:
  "validateDefaultUpstreams ds l ms = ms @ validateDefaultUpstreams ds l []"
  by (simp add: validateDefaultUpstreams_def Let_def)

lemma validateDefaultUpstreams_last:
  "validateDefaultUpstreams ds (withParsedURL parse u) ms = validateDefaultUpstreams ds u ms"
  by (simp add: validateDefaultUpstreams_def Let_def)

lemma validateUpstreams_empty:
  "Upstreams opts = [] \<Longrightarrow>
   validateUpstreams parse iter opts ms = Inr (opts, ms @ [''no upstreams defined''])"
  by (simp add: validateUpstreams_def)

lemma validateUpstreams_fails:
  "\<exists>u \<in> set (Upstreams opts). \<not> parses parse u \<Longrightarrow>
   validateUpstreams parse iter opts ms = Inl NilDereference"
  by (cases "Upstreams opts")
     (simp_all add: validateUpstreams_def loop_fails del: validateUpstreams_loop.simps)

lemma validateUpstreams_returns:
  assumes "Upstreams opts \<noteq> []" and "\<forall>u \<in> set (Upstreams opts). parses parse u"
  shows "validateUpstreams parse iter opts ms =
           Inr (opts\<lparr>Upstreams := map (withParsedURL parse) (Upstreams opts)\<rparr>,
                ms @ upstreamStage parse iter (Upstreams opts))"
proof -
  let ?ups = "Upstreams opts"
  have n: "?ups ! (length ?ups - Suc 0) = last ?ups"
    using assms(1) by (simp add: last_conv_nth)
  show ?thesis
    using assms(1)
    by (simp add: validateUpstreams_def loop_returns[OF assms(2)] Let_def n upstreamStage_def
        validateDefaultUpstreams_last
        validateNameCounts_append[of _ _ _ "ms @ _"] validateNameCounts_append[of _ _ _ "(ms @ _) @ _"]
        validateDefaultUpstreams_append[of _ _ "_ @ _"])
qed

lemma Validate_panics:
  "\<exists>u \<in> set (Upstreams opts). \<not> parses parse u \<Longrightarrow>
   Validate stat parse iter opts = Inl NilDereference"
  by (cases "validateSsl stat opts (validatePort opts [])")
     (auto simp: Validate_def validateUpstreams_fails intro: panic.exhaust)

lemma Validate_empty:
  "Upstreams opts = [] \<Longrightarrow> validateSsl stat opts (validatePort opts []) = Inr m1 \<Longrightarrow>
   Validate stat parse iter opts =
     Inr (opts, Some (optionErrors (m1 @ [''no upstreams defined''])))"
  by (simp add: Validate_def validateUpstreams_empty)

lemma Validate_returns:
  assumes "Upstreams opts \<noteq> []" and "\<forall>u \<in> set (Upstreams opts). parses parse u"
    and "validateSsl stat opts (validatePort opts []) = Inr m1"
  shows "Validate stat parse iter opts =
           Inr (opts\<lparr>Upstreams := map (withParsedURL parse) (Upstreams opts)\<rparr>,
                if m1 @ upstreamStage parse iter (Upstreams opts) = [] then None
                else Some (optionErrors (m1 @ upstreamStage parse iter (Upstreams opts))))"
  using assms(3) by (simp add: Validate_def validateUpstreams_returns[OF assms(1,2)])

lemma Validate_success:
  assumes "Validate stat parse iter opts = Inr (opts', None)"
  shows "Upstreams opts \<noteq> [] \<and> (\<forall>u \<in> set (Upstreams opts). parses parse u) \<and>
         opts' = opts\<lparr>Upstreams := map (withParsedURL parse) (Upstreams opts)\<rparr> \<and>
         validateSsl stat opts (validatePort opts []) = Inr [] \<and>
         upstreamStage parse iter (Upstreams opts) = []"
proof -
  obtain m1 where m1: "validateSsl stat opts (validatePort opts []) = Inr m1"
    using assms by (auto simp: Validate_def split: sum.splits)
  have ne: "Upstreams opts \<noteq> []"
    using assms Validate_empty[OF _ m1] by auto
  have p: "\<forall>u \<in> set (Upstreams opts). parses parse u"
    using assms Validate_panics[of opts parse stat iter] by auto
  from assms Validate_returns[OF ne p m1, of iter] show ?thesis
    using ne p m1 by (auto split: if_splits)
qed

lemma validated_upstream:
  assumes "parses parse u" and "upstreamMessages parse u = []"
  shows "\<exists>p. parsedURL (withParsedURL parse u) = Some p \<and>
             (Scheme p = ''http'' \<or> Scheme p = ''https'') \<and>
             \<not> (HeaderName u \<noteq> [] \<and> CookieName u \<noteq> [])"
  using assms
  by (auto simp: parses_def upstreamMessages_def withParsedURL_def split: sum.splits if_splits)

lemma Validate_success_upstreams:
  assumes "Validate stat parse iter opts = Inr (opts', None)"
  shows "Upstreams opts' = map (withParsedURL parse) (Upstreams opts) \<and>
         (\<forall>u \<in> set (Upstreams opts'). \<exists>p. parsedURL u = Some p \<and>
             (Scheme p = ''http'' \<or> Scheme p = ''https'') \<and>
             \<not> (HeaderName u \<noteq> [] \<and> CookieName u \<noteq> []))"
proof -
  note s = Validate_success[OF assms]
  from s have "concat (map (upstreamMessages parse) (Upstreams opts)) = []"
    by (simp add: upstreamStage_def)
  then have "\<forall>u \<in> set (Upstreams opts). upstreamMessages parse u = []" by simp
  with s show ?thesis
    using validated_upstream[of parse] by fastforce
qed

lemma NewAuthDelegate_validated:
  assumes "Validate stat parse iter opts = Inr (opts', None)"
  shows "NewAuthDelegate opts' = Inr \<lparr>upstreams = map delegateOf (Upstreams opts')\<rparr>"
proof -
  from Validate_success_upstreams[OF assms]
  have "\<forall>u \<in> set (Upstreams opts'). parsedURL u \<noteq> None" by auto
  then show ?thesis
    by (simp add: NewAuthDelegate_def NewAuthDelegate_loop_ok)
qed

lemma validateDefaultUpstreams_multiple:
  "1 < length ds \<Longrightarrow>
   validateDefaultUpstreams ds l [] = [''multiple upstreams without header_name or cookie_name'']"
  by (auto simp: validateDefaultUpstreams_def Let_def)

lemma validateDefaultUpstreams_single:
  "x \<noteq> URL l \<Longrightarrow>
   validateDefaultUpstreams [x] l [] =
     [''upstream without header_name or cookie_name not last in upstream list: '' @ x]"
  by (simp add: validateDefaultUpstreams_def Let_def)

lemma Validate_message:
  assumes "Upstreams opts \<noteq> []" and "\<forall>u \<in> set (Upstreams opts). parses parse u"
    and "validateSsl stat opts (validatePort opts []) = Inr m1"
    and "m \<in> set (upstreamStage parse iter (Upstreams opts))"
  shows "\<exists>opts' msgs. Validate stat parse iter opts = Inr (opts', Some (optionErrors msgs)) \<and>
           m \<in> set msgs"
proof -
  let ?msgs = "m1 @ upstreamStage parse iter (Upstreams opts)"
  from assms(4) have "?msgs \<noteq> []" by auto
  with Validate_returns[OF assms(1-3), of iter]
  have "Validate stat parse iter opts =
          Inr (opts\<lparr>Upstreams := map (withParsedURL parse) (Upstreams opts)\<rparr>,
               Some (optionErrors ?msgs))"
    by simp
  moreover from assms(4) have "m \<in> set ?msgs" by simp
  ultimately show ?thesis by blast
qed

lemmas validate_eval = Validate_def validatePort_def validateSsl_def validateUpstreams_def
  validateUpstream_def validateUpstream_parse_def increment_def validateNameCounts_def
  validateDefaultUpstreams_def checkExistenceAndPermission_def optionErrors_def Let_def
  parse0_def stat0_def testUpstream_def testOptions_def fooURL_def localhostURL_def

lemmas dispatch_eval = ServeHTTP_def ReverseProxy_ServeHTTP_def Director_def director_def
  accepts_def Header_Get_def Header_Set_def Cookie_def http_Error_def StatusUnauthorized_def
  singleJoiningSlash_def Let_def canon0_def rc0_def testRequest_def signatureRule_def
  cookieRule_def fooURL_def localhostURL_def

section \<open>The dispatcher\<close>

text \<open>
  Claim C1. For a configuration that \<^verbatim>\<open>Validate\<close> has accepted, \<^verbatim>\<open>NewAuthDelegate\<close>
  returns a handler whose rules are the upstreams in their configured order: the rule
  at each index carries the header name and the cookie name of the upstream at that
  index, and its proxy is bound to that upstream's parsed URL. For every request,
  \<^verbatim>\<open>ServeHTTP\<close> hands the request to the proxy of the rule of lowest index that accepts
  it. In particular, when a header rule and a cookie rule both accept the request, the
  one listed first serves it.
\<close>

theorem dispatch_first_match:
  assumes "Validate stat parse iter opts = Inr (opts', None)"
  shows "\<exists>h. NewAuthDelegate opts' = Inr h \<and>
           map headerName (upstreams h) = map HeaderName (Upstreams opts) \<and>
           map cookieName (upstreams h) = map CookieName (Upstreams opts) \<and>
           map (\<lambda>d. Some (target (handler d))) (upstreams h) = map parsedURL (Upstreams opts') \<and>
           (\<forall>req i. i < length (upstreams h) \<and> accepts canon rc (upstreams h ! i) req \<and>
                (\<forall>j<i. \<not> accepts canon rc (upstreams h ! j) req) \<longrightarrow>
              ServeHTTP canon rc h req =
                ReverseProxy_ServeHTTP canon (handler (upstreams h ! i)) req)"
proof -
  let ?h = "\<lparr>upstreams = map delegateOf (Upstreams opts')\<rparr>"
  note u = Validate_success_upstreams[OF assms]
  have 1: "NewAuthDelegate opts' = Inr ?h"
    by (rule NewAuthDelegate_validated[OF assms])
  have 2: "map headerName (upstreams ?h) = map HeaderName (Upstreams opts)"
    using u by (simp add: delegateOf_def comp_def)
  have 3: "map cookieName (upstreams ?h) = map CookieName (Upstreams opts)"
    using u by (simp add: delegateOf_def comp_def)
  have "\<forall>x \<in> set (Upstreams opts'). Some (the (parsedURL x)) = parsedURL x"
    using u by fastforce
  then have 4: "map (\<lambda>d. Some (target (handler d))) (upstreams ?h) = map parsedURL (Upstreams opts')"
    by (simp add: delegateOf_def comp_def)
  have 5: "\<forall>req i. i < length (upstreams ?h) \<and> accepts canon rc (upstreams ?h ! i) req \<and>
                (\<forall>j<i. \<not> accepts canon rc (upstreams ?h ! j) req) \<longrightarrow>
              ServeHTTP canon rc ?h req =
                ReverseProxy_ServeHTTP canon (handler (upstreams ?h ! i)) req"
  proof (intro allI impI, elim conjE)
    fix req i
    assume "i < length (upstreams ?h)" and "accepts canon rc (upstreams ?h ! i) req"
      and "\<forall>j<i. \<not> accepts canon rc (upstreams ?h ! j) req"
    then show "ServeHTTP canon rc ?h req =
                 ReverseProxy_ServeHTTP canon (handler (upstreams ?h ! i)) req"
      unfolding ServeHTTP_def by (rule ServeHTTP_loop_first)
  qed
  from 1 2 3 4 5 show ?thesis by blast
qed

text \<open>
  The test ``should match the first upstream if both cookie and header'': the header
  rule is listed first, the request carries the header and the cookie, and the request
  goes to the header rule's upstream.
\<close>

theorem dispatch_first_match_witness:
  "Validate stat0 parse0 (\<lambda>m. m) headerThenCookie = Inr (headerThenCookie', None) \<and>
   NewAuthDelegate headerThenCookie' = Inr \<lparr>upstreams = [signatureRule, cookieRule]\<rparr> \<and>
   accepts canon0 rc0 signatureRule signedCookieRequest \<and>
   accepts canon0 rc0 cookieRule signedCookieRequest \<and>
   ServeHTTP canon0 rc0 \<lparr>upstreams = [signatureRule, cookieRule]\<rparr> signedCookieRequest =
     ReverseProxy_ServeHTTP canon0 \<lparr>target = localhostURL\<rparr> signedCookieRequest"
proof -
  let ?req = signedCookieRequest
  let ?h = "\<lparr>upstreams = [signatureRule, cookieRule]\<rparr>"
  have v: "Validate stat0 parse0 (\<lambda>m. m) headerThenCookie = Inr (headerThenCookie', None)"
    by (simp add: validate_eval headerThenCookie_def headerThenCookie'_def)
  have n: "NewAuthDelegate headerThenCookie' = Inr ?h"
    by (simp add: NewAuthDelegate_def newAuthDelegateReverseProxy_def headerThenCookie'_def
        testOptions_def testUpstream_def signatureRule_def cookieRule_def)
  have a: "accepts canon0 rc0 signatureRule ?req"
    by (simp add: dispatch_eval signedCookieRequest_def)
  have c: "accepts canon0 rc0 cookieRule ?req"
    by (simp add: dispatch_eval signedCookieRequest_def)
  from dispatch_first_match[OF v, of canon0 rc0] n
  have "\<forall>req i. i < length (upstreams ?h) \<and> accepts canon0 rc0 (upstreams ?h ! i) req \<and>
                (\<forall>j<i. \<not> accepts canon0 rc0 (upstreams ?h ! j) req) \<longrightarrow>
              ServeHTTP canon0 rc0 ?h req =
                ReverseProxy_ServeHTTP canon0 (handler (upstreams ?h ! i)) req"
    by auto
  from this[rule_format, of 0 ?req] a
  have "ServeHTTP canon0 rc0 ?h ?req = ReverseProxy_ServeHTTP canon0 (handler signatureRule) ?req"
    by simp
  then have "ServeHTTP canon0 rc0 ?h ?req = ReverseProxy_ServeHTTP canon0 \<lparr>target = localhostURL\<rparr> ?req"
    by (simp add: signatureRule_def)
  with v n a c show ?thesis by blast
qed

text \<open>
  Claim C2, as the code has it. A rule whose \<^verbatim>\<open>headerName\<close> is not empty accepts a
  request if and only if the request's headers hold, under the canonical form of that
  name, a list of values whose first value is not the empty string. The value is
  otherwise irrelevant; a header that is present with the empty string as its value
  does not select the rule, because \<^verbatim>\<open>accepts\<close> compares \<^verbatim>\<open>Header.Get\<close> with the
  empty string.
\<close>

theorem header_rule_accepts:
  assumes "headerName d \<noteq> []"
  shows "accepts canon rc d req \<longleftrightarrow>
           (\<exists>v vs. Header req (canon (headerName d)) = Some (v # vs) \<and> v \<noteq> [])"
  using assms
  by (simp add: accepts_def Header_Get_def split: option.splits list.splits)

text \<open>The test ``should return Accepted from a header-match upstream''.\<close>

theorem header_rule_accepts_witness:
  "headerName signatureRule \<noteq> [] \<and> accepts canon0 rc0 signatureRule signedRequest"
proof -
  have n: "headerName signatureRule \<noteq> []" by (simp add: signatureRule_def)
  have "\<exists>v vs. Header signedRequest (canon0 (headerName signatureRule)) = Some (v # vs) \<and> v \<noteq> []"
    by (simp add: signatureRule_def signedRequest_def testRequest_def canon0_def)
  with header_rule_accepts[OF n, of canon0 rc0 signedRequest] n show ?thesis by simp
qed

text \<open>
  The claim as stated fails: the request carries \<^verbatim>\<open>X-Signature\<close> with the empty
  string as its value, and the rule for \<^verbatim>\<open>X-Signature\<close> does not accept it.
\<close>

theorem header_rule_empty_value_counterexample:
  "Header emptySignatureRequest (canon0 (headerName signatureRule)) = Some [[]] \<and>
   \<not> accepts canon0 rc0 signatureRule emptySignatureRequest"
  by (simp add: dispatch_eval emptySignatureRequest_def)

text \<open>
  Claim C3, as the code has it. When \<^verbatim>\<open>ServeHTTP\<close> forwards a request, some rule of the
  handler accepts the request and the director replaces the URL of the forwarded request
  by the parsed URL of that rule's upstream as a whole: scheme, host, path and query of
  the forwarded request are the upstream's, and the inbound path and query are not in
  its URL. The method, the body and the request target \<^verbatim>\<open>RequestURI\<close> are those of
  the inbound request.
\<close>

theorem forwarded_request_frame:
  assumes "ServeHTTP canon rc h req = Proxied out"
  shows "\<exists>d \<in> set (upstreams h). accepts canon rc d req \<and>
           reqURL out = target (handler d) \<and>
           Method out = Method req \<and> Body out = Body req \<and>
           RequestURI out = RequestURI req"
proof -
  from assms have "ServeHTTP_loop canon rc (upstreams h) req = Proxied out"
    by (simp add: ServeHTTP_def)
  from ServeHTTP_loop_Proxied[OF this]
  obtain d where d: "d \<in> set (upstreams h)" "accepts canon rc d req"
      "out = Director canon (target (handler d)) req"
    by blast
  from d show ?thesis by (auto simp: Director_fields)
qed

text \<open>
  A request for \<^verbatim>\<open>/bar?quux\<close> that carries \<^verbatim>\<open>X-Signature\<close>: the forwarded request has
  the URL of the header rule's upstream, and the inbound method, body and request target.
\<close>

theorem forwarded_request_frame_witness:
  "\<exists>out. ServeHTTP canon0 rc0 \<lparr>upstreams = [signatureRule, cookieRule]\<rparr>
            (testRequest ''/bar'' ''quux'' [''X-Signature'' \<mapsto> [''foobar'']]) = Proxied out \<and>
         reqURL out = localhostURL \<and> Method out = ''GET'' \<and> Body out = [] \<and>
         RequestURI out = ''/bar?quux''"
proof -
  let ?req = "testRequest ''/bar'' ''quux'' [''X-Signature'' \<mapsto> [''foobar'']]"
  let ?h = "\<lparr>upstreams = [signatureRule, cookieRule]\<rparr>"
  obtain out where s: "ServeHTTP canon0 rc0 ?h ?req = Proxied out"
    by (simp add: dispatch_eval)
  have c: "\<not> accepts canon0 rc0 cookieRule ?req"
    by (simp add: dispatch_eval)
  from forwarded_request_frame[OF s] c
  have "reqURL out = target (handler signatureRule) \<and> Method out = Method ?req \<and>
        Body out = Body ?req \<and> RequestURI out = RequestURI ?req"
    by auto
  then have "reqURL out = localhostURL \<and> Method out = ''GET'' \<and> Body out = [] \<and>
         RequestURI out = ''/bar?quux''"
    by (simp add: signatureRule_def testRequest_def)
  with s show ?thesis by blast
qed

text \<open>
  The claim as stated fails: the inbound request is for the path \<^verbatim>\<open>/bar\<close> with the
  query \<^verbatim>\<open>quux\<close>, and the forwarded request has the upstream's path \<^verbatim>\<open>/auth\<close> and
  the upstream's empty query. The inbound path and query survive only in the header
  \<^verbatim>\<open>X-Original-URI\<close>.
\<close>

theorem forwarded_path_counterexample:
  "ServeHTTP canon0 rc0
     \<lparr>upstreams = [\<lparr>headerName = [], cookieName = [], handler = \<lparr>target = localhostURL\<rparr>\<rparr>]\<rparr>
     barQuuxRequest =
     Proxied (barQuuxRequest\<lparr>reqURL := localhostURL,
                Header := [''X-Original-Uri'' \<mapsto> [''/bar?quux'']]\<rparr>) \<and>
   Path (reqURL barQuuxRequest) = ''/bar'' \<and> RawQuery (reqURL barQuuxRequest) = ''quux'' \<and>
   Path localhostURL = ''/auth'' \<and> RawQuery localhostURL = []"
  by (simp add: dispatch_eval barQuuxRequest_def)

text \<open>
  Claim C4, as the code has it, for the director that \<^verbatim>\<open>newAuthDelegateReverseProxy\<close>
  installs, whatever the upstream URL and the request it is given. If \<^verbatim>\<open>Header.Get\<close>
  finds no \<^verbatim>\<open>X-Original-URI\<close> on the inbound request, or finds the empty string (the
  header is absent, or has no value, or its first value is empty), the director leaves
  the request with \<^verbatim>\<open>X-Original-URI\<close> set to the single value \<^verbatim>\<open>req.RequestURI\<close>.
  That field is the request target as the server read it from the request line; the
  director does not compute it from the path and the query of the URL. If the first
  value of the inbound header is not empty, the director leaves the values of the header
  as they are on the inbound request. Nothing is stated of the headers that the library
  sends after the director has returned.
\<close>

theorem original_uri_header:
  "(Header_Get canon (Header req) ''X-Original-URI'' = [] \<longleftrightarrow>
      \<not> (\<exists>v vs. Header req (canon ''X-Original-URI'') = Some (v # vs) \<and> v \<noteq> [])) \<and>
   (Header_Get canon (Header req) ''X-Original-URI'' = [] \<longrightarrow>
      Header (Director canon u req) (canon ''X-Original-URI'') = Some [RequestURI req] \<and>
      Header_Get canon (Header (Director canon u req)) ''X-Original-URI'' = RequestURI req) \<and>
   (Header_Get canon (Header req) ''X-Original-URI'' \<noteq> [] \<longrightarrow>
      Header (Director canon u req) (canon ''X-Original-URI'') =
        Header req (canon ''X-Original-URI'') \<and>
      Header_Get canon (Header (Director canon u req)) ''X-Original-URI'' =
        Header_Get canon (Header req) ''X-Original-URI'')"
proof -
  let ?out = "Director canon u req"
  have H: "Header ?out =
     (if Header_Get canon (Header req) ''X-Original-URI'' = []
      then Header_Set canon (Header req) ''X-Original-URI'' (RequestURI req)
      else Header req)"
    by (simp add: Director_fields)
  have A: "Header_Get canon (Header req) ''X-Original-URI'' = [] \<longleftrightarrow>
            \<not> (\<exists>v vs. Header req (canon ''X-Original-URI'') = Some (v # vs) \<and> v \<noteq> [])"
    by (simp add: Header_Get_def split: option.splits list.splits)
  have B: "Header_Get canon (Header req) ''X-Original-URI'' = [] \<longrightarrow>
            Header ?out (canon ''X-Original-URI'') = Some [RequestURI req] \<and>
            Header_Get canon (Header ?out) ''X-Original-URI'' = RequestURI req"
  proof
    assume "Header_Get canon (Header req) ''X-Original-URI'' = []"
    with H have "Header ?out (canon ''X-Original-URI'') = Some [RequestURI req]"
      by (simp add: Header_Set_def)
    moreover from this have "Header_Get canon (Header ?out) ''X-Original-URI'' = RequestURI req"
      by (simp add: Header_Get_def)
    ultimately show "Header ?out (canon ''X-Original-URI'') = Some [RequestURI req] \<and>
            Header_Get canon (Header ?out) ''X-Original-URI'' = RequestURI req"
      by simp
  qed
  have C: "Header_Get canon (Header req) ''X-Original-URI'' \<noteq> [] \<longrightarrow>
            Header ?out (canon ''X-Original-URI'') = Header req (canon ''X-Original-URI'') \<and>
            Header_Get canon (Header ?out) ''X-Original-URI'' =
              Header_Get canon (Header req) ''X-Original-URI''"
    using H by simp
  from A B C show ?thesis by blast
qed

text \<open>
  The two tests of the header, at the director. ``should not update X-Original-URI if
  already set'': the inbound request carries \<^verbatim>\<open>X-Original-URI: /baz?quux\<close>, and the
  director leaves that value. ``should set X-Original-URI if not set'': the server has
  read the request target \<^verbatim>\<open>/bar?quux\<close>, the inbound request has no such header, and
  the director sets the header to the request target.
\<close>

theorem original_uri_header_witness:
  "Header (Director canon0 localhostURL tracedRequest) (canon0 ''X-Original-URI'') =
     Some [''/baz?quux''] \<and>
   Header (Director canon0 localhostURL barQuuxRequest) (canon0 ''X-Original-URI'') =
     Some [''/bar?quux'']"
proof -
  have g: "Header_Get canon0 (Header tracedRequest) ''X-Original-URI'' = ''/baz?quux''"
    by (simp add: Header_Get_def canon0_def tracedRequest_def testRequest_def)
  have e: "Header tracedRequest (canon0 ''X-Original-URI'') = Some [''/baz?quux'']"
    by (simp add: canon0_def tracedRequest_def testRequest_def)
  have n: "Header_Get canon0 (Header barQuuxRequest) ''X-Original-URI'' = []"
    by (simp add: Header_Get_def canon0_def barQuuxRequest_def testRequest_def)
  have r: "RequestURI barQuuxRequest = ''/bar?quux''"
    by (simp add: barQuuxRequest_def testRequest_def)
  from original_uri_header[of canon0 tracedRequest localhostURL] g e
  have 1: "Header (Director canon0 localhostURL tracedRequest) (canon0 ''X-Original-URI'') =
             Some [''/baz?quux'']"
    by simp
  from original_uri_header[of canon0 barQuuxRequest localhostURL] n r
  have 2: "Header (Director canon0 localhostURL barQuuxRequest) (canon0 ''X-Original-URI'') =
             Some [''/bar?quux'']"
    by simp
  from 1 2 show ?thesis by simp
qed

text \<open>
  The claim as stated fails in both halves. The first request carries
  \<^verbatim>\<open>X-Original-URI\<close> with the empty string as its value, and the director replaces
  that value by the request target \<^verbatim>\<open>/bar?quux\<close>, so the header is not passed through
  as it came. The second request is the one the tests hand to the handler directly: it
  carries no \<^verbatim>\<open>X-Original-URI\<close>, its path is \<^verbatim>\<open>/\<close> and its \<^verbatim>\<open>RequestURI\<close> is
  empty, and the director sets the header to the empty string, not to the path and
  query. Neither request has a \<^verbatim>\<open>Connection\<close> header, so the library sends the header
  as the director leaves it.
\<close>

theorem original_uri_empty_value_counterexample:
  "Header emptyOriginalURIRequest (canon0 ''X-Original-URI'') = Some [[]] \<and>
   Header (Director canon0 localhostURL emptyOriginalURIRequest) (canon0 ''X-Original-URI'') =
     Some [''/bar?quux''] \<and>
   Header directRequest (canon0 ''X-Original-URI'') = None \<and>
   Path (reqURL directRequest) = ''/'' \<and> RawQuery (reqURL directRequest) = [] \<and>
   Header (Director canon0 localhostURL directRequest) (canon0 ''X-Original-URI'') = Some [[]]"
  by (simp add: Director_def director_def Header_Get_def Header_Set_def singleJoiningSlash_def
      Let_def canon0_def localhostURL_def emptyOriginalURIRequest_def directRequest_def
      testRequest_def)

text \<open>
  Claim C5. When no rule of the handler accepts the request (no header rule and no
  cookie rule matches, and there is no default rule, which would accept every request),
  \<^verbatim>\<open>ServeHTTP\<close> answers through \<^verbatim>\<open>http.Error\<close> with status 401 and the plain-text
  body \<^verbatim>\<open>unauthorized request\<close> (and the newline that \<^verbatim>\<open>http.Error\<close> ends the line
  with), and hands the request to no proxy.
\<close>

theorem no_match_unauthorized:
  assumes "\<forall>d \<in> set (upstreams h). \<not> accepts canon rc d req"
  shows "ServeHTTP canon rc h req =
           Responded \<lparr>StatusCode = 401, ContentType = ''text/plain; charset=utf-8'',
                      ResponseBody = ''unauthorized request'' @ [CHR 0x0A]\<rparr> \<and>
         (\<forall>out. ServeHTTP canon rc h req \<noteq> Proxied out) \<and>
         (\<forall>d \<in> set (upstreams h). \<not> (headerName d = [] \<and> cookieName d = []))"
proof -
  have "ServeHTTP canon rc h req =
          Responded \<lparr>StatusCode = 401, ContentType = ''text/plain; charset=utf-8'',
                     ResponseBody = ''unauthorized request'' @ [CHR 0x0A]\<rparr>"
    using ServeHTTP_loop_none[OF assms]
    by (simp add: ServeHTTP_def http_Error_def StatusUnauthorized_def)
  moreover have "\<forall>d \<in> set (upstreams h). \<not> (headerName d = [] \<and> cookieName d = [])"
    using assms by (auto simp: accepts_def)
  ultimately show ?thesis by simp
qed

text \<open>
  The test ``should return Unauthorized if no match and no default'': a header rule and
  a cookie rule, and a request that carries neither the header nor the cookie.
\<close>

theorem no_match_unauthorized_witness:
  "ServeHTTP canon0 rc0 \<lparr>upstreams = [signatureRule, cookieRule]\<rparr> plainRequest =
     Responded \<lparr>StatusCode = 401, ContentType = ''text/plain; charset=utf-8'',
                ResponseBody = ''unauthorized request'' @ [CHR 0x0A]\<rparr>"
proof -
  have "\<forall>d \<in> set (upstreams \<lparr>upstreams = [signatureRule, cookieRule]\<rparr>).
          \<not> accepts canon0 rc0 d plainRequest"
    by (simp add: dispatch_eval plainRequest_def)
  from no_match_unauthorized[OF this] show ?thesis by simp
qed

section \<open>Validation\<close>

text \<open>
  Claim C6, as the code has it. Let the URLs of all upstreams parse and the checks of
  the port and of the TLS files return. If more than one upstream is a default rule,
  \<^verbatim>\<open>Validate\<close> rejects the configuration with the message
  \<^verbatim>\<open>multiple upstreams without header_name or cookie_name\<close>, which names no URL. If
  exactly one upstream is a default rule and its URL string differs from the URL string
  of the last upstream, \<^verbatim>\<open>Validate\<close> rejects the configuration with a message that
  ends with the URL of the default rule. (The check compares URL strings, not
  positions; nothing is stated here about a single default rule that is not last and
  has the URL string of the last upstream.)
\<close>

theorem default_not_last_rejected:
  assumes "validateSsl stat opts (validatePort opts []) = Inr m1"
    and "\<forall>u \<in> set (Upstreams opts). parses parse u"
  shows "(1 < length (filter isDefault (Upstreams opts)) \<longrightarrow>
            (\<exists>opts' msgs. Validate stat parse iter opts = Inr (opts', Some (optionErrors msgs)) \<and>
               ''multiple upstreams without header_name or cookie_name'' \<in> set msgs)) \<and>
         (\<forall>d. filter isDefault (Upstreams opts) = [d] \<and> URL d \<noteq> URL (last (Upstreams opts)) \<longrightarrow>
            (\<exists>opts' msgs. Validate stat parse iter opts = Inr (opts', Some (optionErrors msgs)) \<and>
               (''upstream without header_name or cookie_name not last in upstream list: '' @ URL d)
                 \<in> set msgs))"
proof (intro conjI allI impI)
  assume many: "1 < length (filter isDefault (Upstreams opts))"
  then have ne: "Upstreams opts \<noteq> []" by auto
  from many have "''multiple upstreams without header_name or cookie_name''
      \<in> set (upstreamStage parse iter (Upstreams opts))"
    by (simp add: upstreamStage_def validateDefaultUpstreams_multiple)
  from Validate_message[OF ne assms(2) assms(1) this]
  show "\<exists>opts' msgs. Validate stat parse iter opts = Inr (opts', Some (optionErrors msgs)) \<and>
          ''multiple upstreams without header_name or cookie_name'' \<in> set msgs" .
next
  fix d
  assume one: "filter isDefault (Upstreams opts) = [d] \<and> URL d \<noteq> URL (last (Upstreams opts))"
  then have ne: "Upstreams opts \<noteq> []" by auto
  from one have "(''upstream without header_name or cookie_name not last in upstream list: '' @ URL d)
      \<in> set (upstreamStage parse iter (Upstreams opts))"
    by (simp add: upstreamStage_def validateDefaultUpstreams_single)
  from Validate_message[OF ne assms(2) assms(1) this]
  show "\<exists>opts' msgs. Validate stat parse iter opts = Inr (opts', Some (optionErrors msgs)) \<and>
          (''upstream without header_name or cookie_name not last in upstream list: '' @ URL d)
            \<in> set msgs" .
qed

text \<open>
  The test ``should fail validation if a default upstream isn't last'': a default rule
  for \<^verbatim>\<open>https://foo.com/auth\<close>, followed by a header rule with another URL.
\<close>

theorem default_not_last_rejected_witness:
  "\<exists>opts' msgs.
     Validate stat0 parse0 (\<lambda>m. m)
       (testOptions 443 [testUpstream ''https://foo.com/auth'' [] [],
                         testUpstream ''http://127.0.0.1:8080/auth'' [] ''X-Signature'']) =
       Inr (opts', Some (optionErrors msgs)) \<and>
     ''upstream without header_name or cookie_name not last in upstream list: https://foo.com/auth''
       \<in> set msgs"
proof -
  let ?d = "testUpstream ''https://foo.com/auth'' [] []"
  let ?opts = "testOptions 443 [?d, testUpstream ''http://127.0.0.1:8080/auth'' [] ''X-Signature'']"
  have s: "validateSsl stat0 ?opts (validatePort ?opts []) = Inr []"
    by (simp add: validateSsl_def validatePort_def testOptions_def)
  have p: "\<forall>u \<in> set (Upstreams ?opts). parses parse0 u"
    by (simp add: parses_def parse0_def testOptions_def testUpstream_def)
  have f: "filter isDefault (Upstreams ?opts) = [?d] \<and> URL ?d \<noteq> URL (last (Upstreams ?opts))"
    by (simp add: isDefault_def testOptions_def testUpstream_def)
  from default_not_last_rejected[OF s p, of "\<lambda>m. m"] f
  have "\<exists>opts' msgs. Validate stat0 parse0 (\<lambda>m. m) ?opts = Inr (opts', Some (optionErrors msgs)) \<and>
     (''upstream without header_name or cookie_name not last in upstream list: '' @ URL ?d)
       \<in> set msgs"
    by blast
  then show ?thesis by (simp add: testUpstream_def)
qed

text \<open>
  The claim as stated fails: with two default rules, the first of which is not last,
  the configuration is rejected, but the only message is the one about multiple
  defaults, which does not identify the URL \<^verbatim>\<open>https://foo.com/auth\<close> of that rule.
\<close>

theorem default_not_last_multiple_counterexample:
  "Validate stat0 parse0 (\<lambda>m. m)
     (testOptions 443 [testUpstream ''https://foo.com/auth'' [] [],
                       testUpstream ''http://127.0.0.1:8080/auth'' [] []]) =
     Inr (testOptions 443
            [(testUpstream ''https://foo.com/auth'' [] [])\<lparr>parsedURL := Some fooURL\<rparr>,
             (testUpstream ''http://127.0.0.1:8080/auth'' [] [])\<lparr>parsedURL := Some localhostURL\<rparr>],
          Some (optionErrors [''multiple upstreams without header_name or cookie_name'']))"
  by (simp add: validate_eval)

text \<open>
  The case that the statement above leaves out: a default rule listed first and a header
  rule with the same URL string listed last. The comparison of URL strings finds
  nothing, and \<^verbatim>\<open>Validate\<close> accepts the configuration, although \<^verbatim>\<open>options.go\<close> says
  of the default upstream ``make it the final item''.
\<close>

lemma default_not_last_same_url_accepted:
  "Validate stat0 parse0 (\<lambda>m. m)
     (testOptions 443 [testUpstream ''https://foo.com/auth'' [] [],
                       testUpstream ''https://foo.com/auth'' [] ''X-Signature'']) =
     Inr (testOptions 443
            [(testUpstream ''https://foo.com/auth'' [] [])\<lparr>parsedURL := Some fooURL\<rparr>,
             (testUpstream ''https://foo.com/auth'' [] ''X-Signature'')\<lparr>parsedURL := Some fooURL\<rparr>],
          None)"
  by (simp add: validate_eval)

text \<open>
  Claim C7, as the code has it. Let the URLs of all upstreams parse and the checks of
  the port and of the TLS files return, and let the iteration over a map visit every
  entry once, in whatever order. Then \<^verbatim>\<open>validateNameCounts\<close> lists every non-empty
  header name that appears on more than one upstream, each once and no other name, in
  the order in which the iteration over the map yields them (Go leaves it unspecified;
  the code does not sort). If the list is not empty, \<^verbatim>\<open>Validate\<close> emits the message
  \<^verbatim>\<open>repeated header names: \<close> followed by the names joined with a comma and a space;
  if it is empty, \<^verbatim>\<open>validateNameCounts\<close> adds no message. The same holds for cookie
  names, with \<^verbatim>\<open>repeated cookie names: \<close>. The empty name is never listed.
\<close>

theorem repeated_names_reported:
  assumes "\<forall>m. mset (iter m) = mset m"
    and "validateSsl stat opts (validatePort opts []) = Inr m1"
    and "\<forall>u \<in> set (Upstreams opts). parses parse u"
  shows "\<exists>hs cs.
           distinct hs \<and> set hs = repeated (map HeaderName (Upstreams opts)) \<and> [] \<notin> set hs \<and>
           distinct cs \<and> set cs = repeated (map CookieName (Upstreams opts)) \<and> [] \<notin> set cs \<and>
           (\<forall>ms. validateNameCounts iter ''header names''
                    (fold increment (map HeaderName (Upstreams opts)) []) ms =
                  (if hs = [] then ms else ms @ [''repeated header names: '' @ Join hs '', ''])) \<and>
           (\<forall>ms. validateNameCounts iter ''cookie names''
                    (fold increment (map CookieName (Upstreams opts)) []) ms =
                  (if cs = [] then ms else ms @ [''repeated cookie names: '' @ Join cs '', ''])) \<and>
           (\<exists>opts' msgs.
              Validate stat parse iter opts =
                Inr (opts', if msgs = [] then None else Some (optionErrors msgs)) \<and>
              (hs \<noteq> [] \<longrightarrow> (''repeated header names: '' @ Join hs '', '') \<in> set msgs) \<and>
              (cs \<noteq> [] \<longrightarrow> (''repeated cookie names: '' @ Join cs '', '') \<in> set msgs))"
proof -
  let ?ups = "Upstreams opts"
  let ?hs = "repeatedNames iter (map HeaderName ?ups)"
  let ?cs = "repeatedNames iter (map CookieName ?ups)"
  from assms(1) have iter: "\<And>m. mset (iter m) = mset m" by simp
  note h = repeatedNames_of_counts[OF iter, of "map HeaderName ?ups"]
  note c = repeatedNames_of_counts[OF iter, of "map CookieName ?ups"]
  have h0: "[] \<notin> set ?hs" using h by (simp add: repeated_def)
  have c0: "[] \<notin> set ?cs" using c by (simp add: repeated_def)
  have vh: "\<forall>ms. validateNameCounts iter ''header names''
                    (fold increment (map HeaderName ?ups) []) ms =
                  (if ?hs = [] then ms else ms @ [''repeated header names: '' @ Join ?hs '', ''])"
    by (simp add: validateNameCounts_repeatedNames)
  have vc: "\<forall>ms. validateNameCounts iter ''cookie names''
                    (fold increment (map CookieName ?ups) []) ms =
                  (if ?cs = [] then ms else ms @ [''repeated cookie names: '' @ Join ?cs '', ''])"
    by (simp add: validateNameCounts_repeatedNames)
  have v: "\<exists>opts' msgs.
              Validate stat parse iter opts =
                Inr (opts', if msgs = [] then None else Some (optionErrors msgs)) \<and>
              (?hs \<noteq> [] \<longrightarrow> (''repeated header names: '' @ Join ?hs '', '') \<in> set msgs) \<and>
              (?cs \<noteq> [] \<longrightarrow> (''repeated cookie names: '' @ Join ?cs '', '') \<in> set msgs)"
  proof (cases "?ups = []")
    case True
    then have "set ?hs = {}" "set ?cs = {}"
      using h c by (simp_all add: repeated_def)
    then have e: "?hs = []" "?cs = []" by simp_all
    let ?msgs = "m1 @ [''no upstreams defined'']"
    have "Validate stat parse iter opts =
            Inr (opts, if ?msgs = [] then None else Some (optionErrors ?msgs))"
      using Validate_empty[OF True assms(2), of parse iter] by simp
    with e show ?thesis by blast
  next
    case False
    let ?msgs = "m1 @ upstreamStage parse iter ?ups"
    have r: "Validate stat parse iter opts =
            Inr (opts\<lparr>Upstreams := map (withParsedURL parse) ?ups\<rparr>,
                 if ?msgs = [] then None else Some (optionErrors ?msgs))"
      by (rule Validate_returns[OF False assms(3) assms(2)])
    have mh: "?hs \<noteq> [] \<longrightarrow> (''repeated header names: '' @ Join ?hs '', '') \<in> set ?msgs"
      using vh by (simp add: upstreamStage_def)
    have mc: "?cs \<noteq> [] \<longrightarrow> (''repeated cookie names: '' @ Join ?cs '', '') \<in> set ?msgs"
      using vc by (simp add: upstreamStage_def)
    from r mh mc show ?thesis by blast
  qed
  from h c h0 c0 vh vc v show ?thesis by blast
qed

text \<open>
  The test ``should fail validation if a cookie or header is repeated'': some error is
  returned, since \<^verbatim>\<open>X-Signature\<close> is on two upstreams.
\<close>

theorem repeated_names_reported_witness:
  "\<exists>opts' e.
     Validate stat0 parse0 (\<lambda>m. m)
       (testOptions 443 [testUpstream ''https://foo.com/auth'' [] ''X-Signature'',
                         testUpstream ''http://127.0.0.1:8080/auth'' [] ''X-Signature'',
                         testUpstream ''https://foo.com/auth'' ''_cookie'' [],
                         testUpstream ''http://127.0.0.1:8080/auth'' ''_cookie'' []]) =
       Inr (opts', Some e)"
proof -
  let ?opts = "testOptions 443 [testUpstream ''https://foo.com/auth'' [] ''X-Signature'',
                         testUpstream ''http://127.0.0.1:8080/auth'' [] ''X-Signature'',
                         testUpstream ''https://foo.com/auth'' ''_cookie'' [],
                         testUpstream ''http://127.0.0.1:8080/auth'' ''_cookie'' []]"
  have i: "\<forall>m :: counts. mset ((\<lambda>m. m) m) = mset m" by simp
  have s: "validateSsl stat0 ?opts (validatePort ?opts []) = Inr []"
    by (simp add: validateSsl_def validatePort_def testOptions_def)
  have p: "\<forall>u \<in> set (Upstreams ?opts). parses parse0 u"
    by (simp add: parses_def parse0_def testOptions_def testUpstream_def)
  have r: "''X-Signature'' \<in> repeated (map HeaderName (Upstreams ?opts))"
    by (simp add: repeated_def testOptions_def testUpstream_def)
  from repeated_names_reported[OF i s p]
  obtain hs opts' msgs where
    hs: "set hs = repeated (map HeaderName (Upstreams ?opts))" and
    v: "Validate stat0 parse0 (\<lambda>m. m) ?opts =
          Inr (opts', if msgs = [] then None else Some (optionErrors msgs))" and
    m: "hs \<noteq> [] \<longrightarrow> (''repeated header names: '' @ Join hs '', '') \<in> set msgs"
    by blast
  from r hs have "hs \<noteq> []" by auto
  with m have "msgs \<noteq> []" by auto
  with v show ?thesis by auto
qed

text \<open>
  The claim as stated fails: three header names, each on two upstreams, and an
  iteration that visits the map in the order of insertion. The names are listed in the
  order \<^verbatim>\<open>X-Signature\<close>, \<^verbatim>\<open>Authorization\<close>, \<^verbatim>\<open>X-Token\<close>, which is not sorted.
\<close>

theorem repeated_names_unsorted_counterexample:
  "Validate stat0 parse0 (\<lambda>m. m)
     (testOptions 443 [testUpstream ''https://foo.com/auth'' [] ''X-Signature'',
                       testUpstream ''https://foo.com/auth'' [] ''Authorization'',
                       testUpstream ''https://foo.com/auth'' [] ''X-Token'',
                       testUpstream ''https://foo.com/auth'' [] ''X-Signature'',
                       testUpstream ''https://foo.com/auth'' [] ''Authorization'',
                       testUpstream ''https://foo.com/auth'' [] ''X-Token'']) =
     Inr (testOptions 443
            (map (\<lambda>h. (testUpstream ''https://foo.com/auth'' [] h)\<lparr>parsedURL := Some fooURL\<rparr>)
               [''X-Signature'', ''Authorization'', ''X-Token'',
                ''X-Signature'', ''Authorization'', ''X-Token'']),
          Some (optionErrors [''repeated header names: X-Signature, Authorization, X-Token'']))"
proof -
  let ?ups = "[testUpstream ''https://foo.com/auth'' [] ''X-Signature'',
                       testUpstream ''https://foo.com/auth'' [] ''Authorization'',
                       testUpstream ''https://foo.com/auth'' [] ''X-Token'',
                       testUpstream ''https://foo.com/auth'' [] ''X-Signature'',
                       testUpstream ''https://foo.com/auth'' [] ''Authorization'',
                       testUpstream ''https://foo.com/auth'' [] ''X-Token'']"
  let ?opts = "testOptions 443 ?ups"
  have u: "Upstreams ?opts = ?ups" by (simp add: testOptions_def)
  have ne: "Upstreams ?opts \<noteq> []" by (simp add: testOptions_def)
  have p: "\<forall>u \<in> set (Upstreams ?opts). parses parse0 u"
    by (simp add: parses_def parse0_def testOptions_def testUpstream_def)
  have s: "validateSsl stat0 ?opts (validatePort ?opts []) = Inr []"
    by (simp add: validateSsl_def validatePort_def testOptions_def)
  have a: "concat (map (upstreamMessages parse0) ?ups) = []"
    by (simp add: upstreamMessages_def parse0_def testUpstream_def fooURL_def)
  have h: "fold increment (map HeaderName ?ups) [] =
             [(''X-Signature'', 2), (''Authorization'', 2), (''X-Token'', 2)]"
    by (simp add: increment_def testUpstream_def)
  have c: "fold increment (map CookieName ?ups) [] = [([], 6)]"
    by (simp add: increment_def testUpstream_def)
  have d: "filter isDefault ?ups = []"
    by (simp add: isDefault_def testUpstream_def)
  have st: "upstreamStage parse0 (\<lambda>m. m) ?ups =
              [''repeated header names: X-Signature, Authorization, X-Token'']"
    unfolding upstreamStage_def a h c d
    by (simp add: validateNameCounts_def validateDefaultUpstreams_def)
  have w: "map (withParsedURL parse0) ?ups =
             map (\<lambda>h. (testUpstream ''https://foo.com/auth'' [] h)\<lparr>parsedURL := Some fooURL\<rparr>)
               [''X-Signature'', ''Authorization'', ''X-Token'',
                ''X-Signature'', ''Authorization'', ''X-Token'']"
    by (simp add: withParsedURL_def parse0_def testUpstream_def)
  show ?thesis
    unfolding Validate_returns[OF ne p s] u st w
    by (simp add: testOptions_def)
qed

text \<open>
  Claim C8, as the code has it. For a configuration with no upstreams,
  \<^verbatim>\<open>validateUpstreams\<close> adds the one message \<^verbatim>\<open>no upstreams defined\<close> and checks
  nothing else; \<^verbatim>\<open>Validate\<close> never reports success; when the checks of the port and
  of the TLS files return, it returns the error made of their messages followed by
  \<^verbatim>\<open>no upstreams defined\<close>, and that message alone when the port is positive and no
  TLS file is named; and \<^verbatim>\<open>NewAuthDelegateOptionsFromJSON\<close>, when it returns, returns
  an error and no options.
\<close>

theorem no_upstreams_rejected:
  assumes "Upstreams opts = []"
  shows "validateUpstreams parse iter opts ms = Inr (opts, ms @ [''no upstreams defined'']) \<and>
         (\<forall>opts'. Validate stat parse iter opts \<noteq> Inr (opts', None)) \<and>
         (\<forall>m1. validateSsl stat opts (validatePort opts []) = Inr m1 \<longrightarrow>
            Validate stat parse iter opts =
              Inr (opts, Some (optionErrors (m1 @ [''no upstreams defined''])))) \<and>
         (0 < Port opts \<and> SslCert opts = [] \<and> SslKey opts = [] \<longrightarrow>
            Validate stat parse iter opts =
              Inr (opts, Some (optionErrors [''no upstreams defined'']))) \<and>
         (\<forall>config r e. unmarshal config = Inr opts \<and>
            NewAuthDelegateOptionsFromJSON unmarshal stat parse iter config = Inr (r, e) \<longrightarrow>
            r = None \<and> e \<noteq> None)"
proof -
  have 1: "validateUpstreams parse iter opts ms = Inr (opts, ms @ [''no upstreams defined''])"
    by (rule validateUpstreams_empty[OF assms])
  have 2: "\<forall>opts'. Validate stat parse iter opts \<noteq> Inr (opts', None)"
    using Validate_success[of stat parse iter opts] assms by blast
  have 3: "\<forall>m1. validateSsl stat opts (validatePort opts []) = Inr m1 \<longrightarrow>
            Validate stat parse iter opts =
              Inr (opts, Some (optionErrors (m1 @ [''no upstreams defined''])))"
    using Validate_empty[OF assms] by blast
  have 4: "0 < Port opts \<and> SslCert opts = [] \<and> SslKey opts = [] \<longrightarrow>
            Validate stat parse iter opts =
              Inr (opts, Some (optionErrors [''no upstreams defined'']))"
  proof
    assume "0 < Port opts \<and> SslCert opts = [] \<and> SslKey opts = []"
    then have "validateSsl stat opts (validatePort opts []) = Inr []"
      by (simp add: validateSsl_def validatePort_def)
    from Validate_empty[OF assms this]
    show "Validate stat parse iter opts =
              Inr (opts, Some (optionErrors [''no upstreams defined'']))"
      by simp
  qed
  have 5: "\<forall>config r e. unmarshal config = Inr opts \<and>
            NewAuthDelegateOptionsFromJSON unmarshal stat parse iter config = Inr (r, e) \<longrightarrow>
            r = None \<and> e \<noteq> None"
    using 2
    by (auto simp: NewAuthDelegateOptionsFromJSON_def split: sum.splits option.splits)
  from 1 2 3 4 5 show ?thesis by blast
qed

text \<open>
  The test ``should fail validation if no upstreams defined'': the configuration
  \<^verbatim>\<open>{"port": 443}\<close>.
\<close>

theorem no_upstreams_rejected_witness:
  "Validate stat0 parse0 (\<lambda>m. m) (testOptions 443 []) =
     Inr (testOptions 443 [], Some (optionErrors [''no upstreams defined''])) \<and>
   optionErrors [''no upstreams defined''] =
     ''Invalid options:'' @ [CHR 0x0A] @ ''  no upstreams defined''"
proof -
  have u: "Upstreams (testOptions 443 []) = []" by (simp add: testOptions_def)
  have c: "0 < Port (testOptions 443 []) \<and> SslCert (testOptions 443 []) = [] \<and>
           SslKey (testOptions 443 []) = []"
    by (simp add: testOptions_def)
  from no_upstreams_rejected[OF u, of parse0 "\<lambda>m. m" "[]" stat0] c
  have "Validate stat0 parse0 (\<lambda>m. m) (testOptions 443 []) =
     Inr (testOptions 443 [], Some (optionErrors [''no upstreams defined'']))"
    by blast
  then show ?thesis by (simp add: optionErrors_def)
qed

text \<open>
  The claim as stated fails: with no upstreams and the port zero, the error holds two
  messages, not exactly the one about upstreams.
\<close>

theorem no_upstreams_port_counterexample:
  "Validate stat0 parse0 (\<lambda>m. m) (testOptions 0 []) =
     Inr (testOptions 0 [],
          Some (optionErrors [''port must be specified and greater than zero'',
                              ''no upstreams defined'']))"
  by (simp add: validate_eval)

text \<open>
  Claim C9. When \<^verbatim>\<open>url.Parse\<close> rejects the URL of an upstream, \<^verbatim>\<open>validateUpstream\<close>
  records the message of the failure and assigns the nil URL to \<^verbatim>\<open>parsedURL\<close>; the
  next statement reads the scheme through that nil pointer, so \<^verbatim>\<open>validateUpstream\<close>
  panics, and so does \<^verbatim>\<open>Validate\<close> on every configuration that holds such an upstream:
  it returns no list of messages at all.
\<close>

theorem parse_failure_panics:
  assumes "u \<in> set (Upstreams opts)" and "parse (URL u) = Inl err"
  shows "validateUpstream_parse parse u ms =
           (u\<lparr>parsedURL := None\<rparr>, ms @ [''upstream URL failed to parse'' @ err]) \<and>
         validateUpstream parse u ms = Inl NilDereference \<and>
         Validate stat parse iter opts = Inl NilDereference"
proof -
  from assms(2) have np: "\<not> parses parse u" by (simp add: parses_def)
  have "validateUpstream_parse parse u ms =
          (u\<lparr>parsedURL := None\<rparr>, ms @ [''upstream URL failed to parse'' @ err])"
    using assms(2) by (simp add: validateUpstream_parse_def)
  moreover have "validateUpstream parse u ms = Inl NilDereference"
    using np by (rule validateUpstream_fails)
  moreover have "Validate stat parse iter opts = Inl NilDereference"
    using assms(1) np by (intro Validate_panics) blast
  ultimately show ?thesis by simp
qed

text \<open>
  A port of zero, an upstream with both names, and an upstream whose URL does not parse:
  the two messages that apply to this configuration are lost with the panic.
\<close>

theorem parse_failure_panics_witness:
  "parse0 '':foo'' = Inl ''parse :foo: missing protocol scheme'' \<and>
   Validate stat0 parse0 (\<lambda>m. m)
     (testOptions 0 [testUpstream ''https://foo.com/auth'' ''_oauth2_proxy'' ''X-Signature'',
                     testUpstream '':foo'' [] []]) = Inl NilDereference"
proof -
  have p: "parse0 (URL (testUpstream '':foo'' [] [])) = Inl ''parse :foo: missing protocol scheme''"
    by (simp add: parse0_def testUpstream_def)
  have m: "testUpstream '':foo'' [] [] \<in> set (Upstreams
      (testOptions 0 [testUpstream ''https://foo.com/auth'' ''_oauth2_proxy'' ''X-Signature'',
                      testUpstream '':foo'' [] []]))"
    by (simp add: testOptions_def)
  from parse_failure_panics[where parse = parse0 and ms = "[]" and stat = stat0
      and iter = "\<lambda>m. m", OF m p] p show ?thesis
    by (simp add: testUpstream_def)
qed

text \<open>
  Claim C10. When \<^verbatim>\<open>Validate\<close> returns a nil error, every upstream of the
  configuration it leaves has a parsed URL that is not nil and whose scheme is
  \<^verbatim>\<open>http\<close> or \<^verbatim>\<open>https\<close>, and at most one of its header name and cookie name is not
  empty. \<^verbatim>\<open>NewAuthDelegate\<close> then returns a handler, built from these fields without
  changing them, every rule of which has a proxy bound to such a URL and at most one
  of the two names.
\<close>

theorem validated_upstreams_invariant:
  assumes "Validate stat parse iter opts = Inr (opts', None)"
  shows "(\<forall>u \<in> set (Upstreams opts'). \<exists>p. parsedURL u = Some p \<and>
            (Scheme p = ''http'' \<or> Scheme p = ''https'') \<and>
            \<not> (HeaderName u \<noteq> [] \<and> CookieName u \<noteq> [])) \<and>
         (\<exists>h. NewAuthDelegate opts' = Inr h \<and>
            length (upstreams h) = length (Upstreams opts') \<and>
            (\<forall>i < length (upstreams h).
               headerName (upstreams h ! i) = HeaderName (Upstreams opts' ! i) \<and>
               cookieName (upstreams h ! i) = CookieName (Upstreams opts' ! i) \<and>
               Some (target (handler (upstreams h ! i))) = parsedURL (Upstreams opts' ! i)) \<and>
            (\<forall>d \<in> set (upstreams h).
               (Scheme (target (handler d)) = ''http'' \<or> Scheme (target (handler d)) = ''https'') \<and>
               \<not> (headerName d \<noteq> [] \<and> cookieName d \<noteq> [])))"
proof -
  let ?h = "\<lparr>upstreams = map delegateOf (Upstreams opts')\<rparr>"
  from Validate_success_upstreams[OF assms]
  have inv: "\<forall>u \<in> set (Upstreams opts'). \<exists>p. parsedURL u = Some p \<and>
            (Scheme p = ''http'' \<or> Scheme p = ''https'') \<and>
            \<not> (HeaderName u \<noteq> [] \<and> CookieName u \<noteq> [])"
    by simp
  have 1: "NewAuthDelegate opts' = Inr ?h"
    by (rule NewAuthDelegate_validated[OF assms])
  have 2: "length (upstreams ?h) = length (Upstreams opts')" by simp
  have 3: "\<forall>i < length (upstreams ?h).
               headerName (upstreams ?h ! i) = HeaderName (Upstreams opts' ! i) \<and>
               cookieName (upstreams ?h ! i) = CookieName (Upstreams opts' ! i) \<and>
               Some (target (handler (upstreams ?h ! i))) = parsedURL (Upstreams opts' ! i)"
  proof (intro allI impI)
    fix i
    assume "i < length (upstreams ?h)"
    then have "Upstreams opts' ! i \<in> set (Upstreams opts')" by simp
    with inv obtain p where "parsedURL (Upstreams opts' ! i) = Some p" by blast
    with \<open>i < length (upstreams ?h)\<close>
    show "headerName (upstreams ?h ! i) = HeaderName (Upstreams opts' ! i) \<and>
          cookieName (upstreams ?h ! i) = CookieName (Upstreams opts' ! i) \<and>
          Some (target (handler (upstreams ?h ! i))) = parsedURL (Upstreams opts' ! i)"
      by (simp add: delegateOf_def)
  qed
  have 4: "\<forall>d \<in> set (upstreams ?h).
               (Scheme (target (handler d)) = ''http'' \<or> Scheme (target (handler d)) = ''https'') \<and>
               \<not> (headerName d \<noteq> [] \<and> cookieName d \<noteq> [])"
    using inv by (fastforce simp: delegateOf_def)
  from inv 1 2 3 4 show ?thesis by blast
qed

text \<open>The configuration with a header rule and a cookie rule, validated.\<close>

theorem validated_upstreams_invariant_witness:
  "Validate stat0 parse0 (\<lambda>m. m) headerThenCookie = Inr (headerThenCookie', None) \<and>
   map parsedURL (Upstreams headerThenCookie') = [Some localhostURL, Some fooURL] \<and>
   NewAuthDelegate headerThenCookie' = Inr \<lparr>upstreams = [signatureRule, cookieRule]\<rparr>"
proof -
  have v: "Validate stat0 parse0 (\<lambda>m. m) headerThenCookie = Inr (headerThenCookie', None)"
    by (simp add: validate_eval headerThenCookie_def headerThenCookie'_def)
  have n: "NewAuthDelegate headerThenCookie' = Inr \<lparr>upstreams = [signatureRule, cookieRule]\<rparr>"
    by (simp add: NewAuthDelegate_def newAuthDelegateReverseProxy_def headerThenCookie'_def
        testOptions_def testUpstream_def signatureRule_def cookieRule_def)
  from validated_upstreams_invariant[OF v]
  have "\<forall>u \<in> set (Upstreams headerThenCookie'). \<exists>p. parsedURL u = Some p"
    by blast
  then have "map parsedURL (Upstreams headerThenCookie') = [Some localhostURL, Some fooURL]"
    by (simp add: headerThenCookie'_def testOptions_def testUpstream_def)
  with v n show ?thesis by simp
qed

end
